theory Spec2Isabelle
  imports Complex_Main
begin

section \<open>JSON values as the Python code sees them\<close>

text \<open>
  \<^verbatim>\<open>json.load\<close> and \<^verbatim>\<open>request.get_json()\<close> hand the handlers Python objects:
  \<^verbatim>\<open>None\<close>, \<^verbatim>\<open>bool\<close>, \<^verbatim>\<open>int\<close> (unbounded), \<^verbatim>\<open>float\<close>, \<^verbatim>\<open>str\<close>, \<^verbatim>\<open>list\<close> and \<^verbatim>\<open>dict\<close>.
  A dict keeps its keys in insertion order, so it is an association list; lookup takes
  the first entry of a key and assignment overwrites it in place, which is what a Python
  dict does on a list without repeated keys.  A finite float is taken by its exact
  rational value, which is how Python compares a float with an int.
\<close>

datatype pyfloat = Finite rat | PosInf | NegInf | NaN

datatype json =
    JNull
  | JBool bool
  | JInt int
  | JFloat pyfloat
  | JStr string
  | JArr "json list"
  | JObj "(string \<times> json) list"

text \<open>Exceptions carry the text \<^verbatim>\<open>str(e)\<close> gives, which the 500 answers quote.\<close>

datatype exn =
    AttributeError string
  | TypeError string
  | BadRequest string
  | UnsupportedMediaType string

fun str_exn :: "exn \<Rightarrow> string" where
  "str_exn (AttributeError s) = s"
| "str_exn (TypeError s) = s"
| "str_exn (BadRequest s) = s"
| "str_exn (UnsupportedMediaType s) = s"

definition sq :: string where
  "sq = [CHR 0x27]"

fun type_name :: "json \<Rightarrow> string" where
  "type_name JNull = ''NoneType''"
| "type_name (JBool _) = ''bool''"
| "type_name (JInt _) = ''int''"
| "type_name (JFloat _) = ''float''"
| "type_name (JStr _) = ''str''"
| "type_name (JArr _) = ''list''"
| "type_name (JObj _) = ''dict''"

text \<open>
  \<^verbatim>\<open>isinstance(v, int)\<close>: Python's \<^verbatim>\<open>bool\<close> is a subclass of \<^verbatim>\<open>int\<close>, so the test holds
  for \<^verbatim>\<open>True\<close> and \<^verbatim>\<open>False\<close> too, whose integer values are 1 and 0.
\<close>

fun isinstance_int :: "json \<Rightarrow> bool" where
  "isinstance_int (JInt _) = True"
| "isinstance_int (JBool _) = True"
| "isinstance_int _ = False"

fun int_value :: "json \<Rightarrow> int" where
  "int_value (JInt n) = n"
| "int_value (JBool b) = (if b then 1 else 0)"
| "int_value _ = 0"

text \<open>\<^verbatim>\<open>v == n\<close> for an int \<^verbatim>\<open>n\<close>: numbers compare by value, everything else is unequal.\<close>

fun py_eq_int :: "json \<Rightarrow> int \<Rightarrow> bool" where
  "py_eq_int (JInt m) n = (m = n)"
| "py_eq_int (JBool b) n = ((if b then 1 else 0) = n)"
| "py_eq_int (JFloat (Finite q)) n = (q = of_int n)"
| "py_eq_int _ n = False"

subsection \<open>Dict operations\<close>

text \<open>\<^verbatim>\<open>d[k] = v\<close>\<close>

fun dict_set :: "(string \<times> json) list \<Rightarrow> string \<Rightarrow> json \<Rightarrow> (string \<times> json) list" where
  "dict_set [] k v = [(k, v)]"
| "dict_set ((k', v') # rest) k v =
     (if k' = k then (k', v) # rest else (k', v') # dict_set rest k v)"

text \<open>\<^verbatim>\<open>k in d\<close>\<close>

definition dict_contains :: "(string \<times> json) list \<Rightarrow> string \<Rightarrow> bool" where
  "dict_contains d k = (map_of d k \<noteq> None)"

text \<open>\<^verbatim>\<open>d.setdefault(k, v)\<close>, for its effect on \<^verbatim>\<open>d\<close>\<close>

definition setdefault :: "(string \<times> json) list \<Rightarrow> string \<Rightarrow> json \<Rightarrow> (string \<times> json) list" where
  "setdefault d k v = (if dict_contains d k then d else d @ [(k, v)])"

text \<open>
  \<^verbatim>\<open>item.get(k, default)\<close>; \<^verbatim>\<open>item.get(k)\<close> is the call with default \<^verbatim>\<open>None\<close>.  Only a dict
  has the method: on any other value the attribute lookup raises.
\<close>

fun py_get :: "json \<Rightarrow> string \<Rightarrow> json \<Rightarrow> exn + json" where
  "py_get (JObj d) k dflt = Inr (case map_of d k of None \<Rightarrow> dflt | Some v \<Rightarrow> v)"
| "py_get x k dflt =
     Inl (AttributeError (sq @ type_name x @ sq @ '' object has no attribute '' @ sq @ ''get'' @ sq))"

text \<open>
  What \<^verbatim>\<open>for item in items\<close> runs over.  The file normally holds an array, but
  \<^verbatim>\<open>load_json\<close> returns whatever JSON value is in it: a dict yields its keys, a string
  its characters, and the other values are not iterable.
\<close>

fun py_iter :: "json \<Rightarrow> exn + json list" where
  "py_iter (JArr xs) = Inr xs"
| "py_iter (JObj d) = Inr (map (\<lambda>kv. JStr (fst kv)) d)"
| "py_iter (JStr s) = Inr (map (\<lambda>c. JStr [c]) s)"
| "py_iter x = Inl (TypeError (sq @ type_name x @ sq @ '' object is not iterable''))"

text \<open>\<^verbatim>\<open>items.append(x)\<close>: a list method only.\<close>

fun py_append :: "json \<Rightarrow> json \<Rightarrow> exn + json" where
  "py_append (JArr xs) x = Inr (JArr (xs @ [x]))"
| "py_append y x =
     Inl (AttributeError (sq @ type_name y @ sq @ '' object has no attribute '' @ sq @ ''append'' @ sq))"

section \<open>The data directory, the log and the clock\<close>

text \<open>
  A file of the data directory either parses (\<open>Content\<close>) or makes \<^verbatim>\<open>open\<close> or
  \<^verbatim>\<open>json.load\<close> raise (\<open>Unreadable\<close>); a name without entry does not exist.

  \<^verbatim>\<open>save_json\<close> opens the file with mode \<^verbatim>\<open>'w'\<close>, which empties it, and dumps the data
  only then.  A handler writes at most once, and \<open>disk\<close> says how that write ends,
  whatever the cause (the directory, the disk, or the data itself, such as a string that
  the file's encoding does not take): both steps succeed (\<open>Written\<close>); \<^verbatim>\<open>open\<close> raises
  and the file is as it was (\<open>OpenRaises\<close>); or the file is opened and the dump raises,
  which leaves an empty or partial file that no longer parses (\<open>DumpRaises\<close>).
  The log holds the calls of \<^verbatim>\<open>logger.error\<close>, oldest first.
\<close>

datatype file_state = Unreadable | Content json

datatype write_outcome = Written | OpenRaises | DumpRaises

datatype log_entry =
    LoadError string
  | SaveError string
  | CreateError string exn
  | PutError string int exn

record state =
  files :: "string \<rightharpoonup> file_state"
  disk :: write_outcome
  log :: "log_entry list"

definition disk_ok :: "state \<Rightarrow> bool" where
  "disk_ok st = (disk st = Written)"

definition load_json :: "state \<Rightarrow> string \<Rightarrow> json \<times> state" where
  "load_json st filename =
     (case files st filename of
        None \<Rightarrow> (JArr [], st)
      | Some Unreadable \<Rightarrow> (JArr [], st\<lparr>log := log st @ [LoadError filename]\<rparr>)
      | Some (Content v) \<Rightarrow> (v, st))"

definition save_json :: "state \<Rightarrow> string \<Rightarrow> json \<Rightarrow> bool \<times> state" where
  "save_json st filename data =
     (case disk st of
        Written \<Rightarrow> (True, st\<lparr>files := (files st)(filename \<mapsto> Content data)\<rparr>)
      | OpenRaises \<Rightarrow> (False, st\<lparr>log := log st @ [SaveError filename]\<rparr>)
      | DumpRaises \<Rightarrow>
          (False, st\<lparr>files := (files st)(filename \<mapsto> Unreadable),
                      log := log st @ [SaveError filename]\<rparr>))"

text \<open>
  \<^verbatim>\<open>time.strftime(fmt)\<close> without a time tuple formats \<^verbatim>\<open>time.localtime()\<close>.  The clock
  gives the broken-down local time and, for comparison, the broken-down UTC time
  (\<^verbatim>\<open>time.gmtime()\<close>) of the same instant.  Each field is printed with its last two
  decimal digits, the year with its last four.
\<close>

record struct_time =
  tm_year :: nat
  tm_mon :: nat
  tm_mday :: nat
  tm_hour :: nat
  tm_min :: nat
  tm_sec :: nat

record clock =
  localtime :: struct_time
  gmtime :: struct_time

definition digit :: "nat \<Rightarrow> char" where
  "digit n = ''0123456789'' ! (n mod 10)"

definition pad2 :: "nat \<Rightarrow> string" where
  "pad2 n = [digit (n div 10), digit n]"

definition pad4 :: "nat \<Rightarrow> string" where
  "pad4 n = [digit (n div 1000), digit (n div 100), digit (n div 10), digit n]"

text \<open>\<^verbatim>\<open>'%Y-%m-%dT%H:%M:%S.000Z'\<close>\<close>

definition strftime_iso :: "struct_time \<Rightarrow> string" where
  "strftime_iso t =
     pad4 (tm_year t) @ ''-'' @ pad2 (tm_mon t) @ ''-'' @ pad2 (tm_mday t) @ ''T'' @
     pad2 (tm_hour t) @ '':'' @ pad2 (tm_min t) @ '':'' @ pad2 (tm_sec t) @ ''.000Z''"

definition get_timestamp_iso :: "clock \<Rightarrow> string" where
  "get_timestamp_iso clk = strftime_iso (localtime clk)"

section \<open>Requests and responses\<close>

text \<open>
  A request is what the handlers read of it: the method, the raw body
  (\<^verbatim>\<open>request.data\<close>) and what \<^verbatim>\<open>request.get_json()\<close> does with it.  The call is Flask's,
  not this repository's, so its outcome is part of the request: it returns the parsed
  value (\<open>JNull\<close> for Python's \<^verbatim>\<open>None\<close>) or raises.
\<close>

datatype http_method = GET | POST | PUT | DELETE

record request =
  rmethod :: http_method
  rdata :: string
  get_json :: "exn + json"

record response =
  body :: json
  status :: nat

definition jsonify :: "json \<Rightarrow> nat \<Rightarrow> response" where
  "jsonify v code = \<lparr>body = v, status = code\<rparr>"

definition error_response :: "string \<Rightarrow> nat \<Rightarrow> response" where
  "error_response msg code = jsonify (JObj [(''error'', JStr msg)]) code"

text \<open>The two messages with an umlaut, as UTF-8 bytes.\<close>

definition msg_invalid_json :: string where
  "msg_invalid_json = ''Ung'' @ [CHR 0xC3, CHR 0xBC] @ ''ltiges JSON''"

section \<open>\<^verbatim>\<open>module_list\<close>: list and create\<close>

text \<open>
  \<^verbatim>\<open>[item.get('id', 0) for item in items if isinstance(item.get('id'), int)]\<close>, the ints by
  their values.
\<close>

fun existing_ids :: "json list \<Rightarrow> exn + int list" where
  "existing_ids [] = Inr []"
| "existing_ids (item # rest) =
     (case py_get item ''id'' JNull of
        Inl e \<Rightarrow> Inl e
      | Inr v \<Rightarrow>
          if isinstance_int v
          then (case py_get item ''id'' (JInt 0) of
                  Inl e \<Rightarrow> Inl e
                | Inr w \<Rightarrow> (case existing_ids rest of
                             Inl e \<Rightarrow> Inl e
                           | Inr ids \<Rightarrow> Inr (int_value w # ids)))
          else existing_ids rest)"

text \<open>\<^verbatim>\<open>while next_id in existing_ids: next_id += 1\<close>\<close>

function next_free :: "int \<Rightarrow> int list \<Rightarrow> int" where
  "next_free next_id ids =
     (if next_id \<in> set ids then next_free (next_id + 1) ids else next_id)"
  by pat_completeness auto
termination
proof (relation "measure (\<lambda>(n, ids). nat (Max (set ids) + 1 - n))")
  show "wf (measure (\<lambda>(n, ids). nat (Max (set ids) + 1 - n)))"
    by simp
next
  fix next_id :: int and ids :: "int list"
  assume "next_id \<in> set ids"
  then have "next_id \<le> Max (set ids)"
    by simp
  then show "((next_id + 1, ids), (next_id, ids))
      \<in> measure (\<lambda>(n, ids). nat (Max (set ids) + 1 - n))"
    by simp
qed

declare next_free.simps [simp del]

text \<open>
  After the id is set: \<^verbatim>\<open>created_at\<close> unless the key is there, then the defaults of the
  two collections that have some, each under its own \<^verbatim>\<open>if\<close>.
\<close>

definition set_created_at :: "clock \<Rightarrow> (string \<times> json) list \<Rightarrow> (string \<times> json) list" where
  "set_created_at clk d =
     (if \<not> dict_contains d ''created_at''
      then dict_set d ''created_at'' (JStr (get_timestamp_iso clk))
      else d)"

definition tools_defaults :: "string \<Rightarrow> (string \<times> json) list \<Rightarrow> (string \<times> json) list" where
  "tools_defaults mname d =
     (if mname = ''tools''
      then setdefault (setdefault (setdefault (setdefault d
             ''admin'' (JBool False)) ''autostart'' (JBool False))
             ''tags'' (JArr [])) ''favorite'' (JBool False)
      else d)"

definition faq_defaults :: "string \<Rightarrow> (string \<times> json) list \<Rightarrow> (string \<times> json) list" where
  "faq_defaults mname d =
     (if mname = ''faq''
      then setdefault (setdefault (setdefault d
             ''tags'' (JArr [])) ''favorite'' (JBool False)) ''attachments'' (JArr [])
      else d)"

text \<open>
  The body of the \<^verbatim>\<open>try\<close> of the POST branch; \<open>Inl\<close> is an exception on its way to the
  \<^verbatim>\<open>except\<close>.  \<^verbatim>\<open>new_item['id'] = next_id\<close> works on a dict only: a list wants an integer
  index and the other values take no item assignment.
\<close>

fun setitem_error :: "json \<Rightarrow> exn" where
  "setitem_error (JArr _) = TypeError ''list indices must be integers or slices, not str''"
| "setitem_error x =
     TypeError (sq @ type_name x @ sq @ '' object does not support item assignment'')"

text \<open>Lines 69 to 83, on the dict \<^verbatim>\<open>new_item\<close>.\<close>

definition fill_item :: "clock \<Rightarrow> string \<Rightarrow> int \<Rightarrow> (string \<times> json) list \<Rightarrow> (string \<times> json) list" where
  "fill_item clk mname next_id d =
     faq_defaults mname (tools_defaults mname
       (set_created_at clk (dict_set d ''id'' (JInt next_id))))"

definition append_and_save :: "state \<Rightarrow> string \<Rightarrow> json \<Rightarrow> json \<Rightarrow> exn + response \<times> state" where
  "append_and_save st mname items new_item =
     (case py_append items new_item of
        Inl e \<Rightarrow> Inl e
      | Inr items' \<Rightarrow>
          Inr (jsonify new_item 201, snd (save_json st (mname @ ''.json'') items')))"

definition create_item :: "state \<Rightarrow> clock \<Rightarrow> string \<Rightarrow> json \<Rightarrow> json \<Rightarrow> exn + response \<times> state" where
  "create_item st clk mname items new_item =
     (case py_iter items of
        Inl e \<Rightarrow> Inl e
      | Inr xs \<Rightarrow>
          (case existing_ids xs of
             Inl e \<Rightarrow> Inl e
           | Inr ids \<Rightarrow>
               (case new_item of
                  JObj d \<Rightarrow>
                    append_and_save st mname items (JObj (fill_item clk mname (next_free 1 ids) d))
                | _ \<Rightarrow> Inl (setitem_error new_item))))"

definition create :: "state \<Rightarrow> clock \<Rightarrow> string \<Rightarrow> json \<Rightarrow> request \<Rightarrow> exn + response \<times> state" where
  "create st clk mname items req =
     (if rdata req = [] then Inr (error_response ''Leerer Request-Body'' 400, st)
      else (case get_json req of
              Inl e \<Rightarrow> Inl e
            | Inr new_item \<Rightarrow>
                if new_item = JNull then Inr (error_response msg_invalid_json 400, st)
                else create_item st clk mname items new_item))"

definition module_list :: "state \<Rightarrow> clock \<Rightarrow> string \<Rightarrow> request \<Rightarrow> response \<times> state" where
  "module_list st clk mname req =
     (let (items, st1) = load_json st (mname @ ''.json'') in
      if rmethod req = GET then (jsonify items 200, st1)
      else (case create st1 clk mname items req of
              Inr r \<Rightarrow> r
            | Inl e \<Rightarrow>
                (error_response (''Fehler beim Erstellen: '' @ str_exn e) 500,
                 st1\<lparr>log := log st1 @ [CreateError mname e]\<rparr>)))"

section \<open>\<^verbatim>\<open>module_item\<close>: fetch, replace and delete\<close>

text \<open>
  \<^verbatim>\<open>next((i for i, it in enumerate(items) if it.get('id') == item_id), None)\<close>, counting
  from \<open>i\<close>.
\<close>

fun find_idx :: "json list \<Rightarrow> int \<Rightarrow> nat \<Rightarrow> exn + nat option" where
  "find_idx [] item_id i = Inr None"
| "find_idx (it # rest) item_id i =
     (case py_get it ''id'' JNull of
        Inl e \<Rightarrow> Inl e
      | Inr v \<Rightarrow> if py_eq_int v item_id then Inr (Some i) else find_idx rest item_id (Suc i))"

text \<open>\<^verbatim>\<open>items.pop(idx)\<close> and \<^verbatim>\<open>items[idx] = x\<close> on a list, at an index in range.\<close>

definition list_pop :: "json list \<Rightarrow> nat \<Rightarrow> json list" where
  "list_pop xs idx = take idx xs @ drop (Suc idx) xs"

text \<open>
  The body of the \<^verbatim>\<open>try\<close> of the PUT branch.  It runs only once an index was found, and
  an index is found in a list only: the keys of a dict and the characters of a string are
  strings, which have no \<^verbatim>\<open>get\<close>.  So \<open>xs\<close> are the elements of the list \<^verbatim>\<open>items\<close>.
\<close>

definition replace :: "state \<Rightarrow> string \<Rightarrow> json list \<Rightarrow> nat \<Rightarrow> int \<Rightarrow> request \<Rightarrow> exn + response \<times> state" where
  "replace st mname xs idx item_id req =
     (if rdata req = [] then Inr (error_response ''Leerer Request-Body'' 400, st)
      else (case get_json req of
              Inl e \<Rightarrow> Inl e
            | Inr updated_item \<Rightarrow>
                if updated_item = JNull then Inr (error_response msg_invalid_json 400, st)
                else (case updated_item of
                        JObj d \<Rightarrow>
                          Inr (jsonify (JObj (dict_set d ''id'' (JInt item_id))) 200,
                               snd (save_json st (mname @ ''.json'')
                                 (JArr (xs[idx := JObj (dict_set d ''id'' (JInt item_id))]))))
                      | _ \<Rightarrow> Inl (setitem_error updated_item))))"

text \<open>
  The index search is outside the \<^verbatim>\<open>try\<close>: an exception there leaves the handler
  (\<open>Inl\<close>), with the state the load left.
\<close>

definition item_found :: "state \<Rightarrow> string \<Rightarrow> json list \<Rightarrow> nat \<Rightarrow> int \<Rightarrow> request \<Rightarrow> (exn + response) \<times> state" where
  "item_found st mname xs idx item_id req =
     (if rmethod req = GET then (Inr (jsonify (xs ! idx) 200), st)
      else if rmethod req = DELETE
      then (Inr (jsonify (JObj [(''success'', JBool True)]) 200),
            snd (save_json st (mname @ ''.json'') (JArr (list_pop xs idx))))
      else (case replace st mname xs idx item_id req of
              Inr (r, st') \<Rightarrow> (Inr r, st')
            | Inl e \<Rightarrow>
                (Inr (error_response (''Fehler beim Aktualisieren: '' @ str_exn e) 500),
                 st\<lparr>log := log st @ [PutError mname item_id e]\<rparr>)))"

definition module_item :: "state \<Rightarrow> string \<Rightarrow> int \<Rightarrow> request \<Rightarrow> (exn + response) \<times> state" where
  "module_item st mname item_id req =
     (let (items, st1) = load_json st (mname @ ''.json'') in
      (case py_iter items of
         Inl e \<Rightarrow> (Inl e, st1)
       | Inr xs \<Rightarrow>
           (case find_idx xs item_id 0 of
              Inl e \<Rightarrow> (Inl e, st1)
            | Inr None \<Rightarrow> (Inr (error_response ''Nicht gefunden'' 404), st1)
            | Inr (Some idx) \<Rightarrow> item_found st1 mname xs idx item_id req)))"

section \<open>Records, collections and the inputs of the examples\<close>

text \<open>
  A record of a collection is a JSON object.  A record has the id \<open>item_id\<close> when the
  test of the index search, \<^verbatim>\<open>it.get('id') == item_id\<close>, holds for it; for an id field
  that is a JSON integer this is equality of the two integers.
\<close>

definition is_dict :: "json \<Rightarrow> bool" where
  "is_dict x = (case x of JObj _ \<Rightarrow> True | _ \<Rightarrow> False)"

definition has_id :: "json \<Rightarrow> int \<Rightarrow> bool" where
  "has_id it item_id =
     (case py_get it ''id'' JNull of Inl e \<Rightarrow> False | Inr v \<Rightarrow> py_eq_int v item_id)"

text \<open>
  The id of a record whose \<open>id\<close> field is a JSON integer, and the invariant of the data
  model: every element of the collection is such a record, the ids are positive and no
  two records share one.
\<close>

definition record_id :: "json \<Rightarrow> int option" where
  "record_id x =
     (case x of
        JObj d \<Rightarrow> (case map_of d ''id'' of Some (JInt n) \<Rightarrow> Some n | _ \<Rightarrow> None)
      | _ \<Rightarrow> None)"

definition unique_positive_ids :: "json list \<Rightarrow> bool" where
  "unique_positive_ids xs =
     (list_all (\<lambda>x. case record_id x of Some n \<Rightarrow> 0 < n | None \<Rightarrow> False) xs
      \<and> distinct (map record_id xs))"

text \<open>
  The states, clocks and requests the theorems are instantiated with: an empty data
  directory, a host whose local time is UTC and one that is an hour ahead of it, requests
  by method, the states that three creates and a delete lead to, and a data directory
  in which the dump of a write raises.  \<open>q\<close> puts a key or string of a raw body in double quotes.
  \<open>malformed_post\<close> and \<open>malformed_put\<close> carry a body that is not JSON under a JSON content
  type: Flask's \<^verbatim>\<open>get_json()\<close>, called as here without \<^verbatim>\<open>silent=True\<close>, raises
  \<^verbatim>\<open>BadRequest\<close> on it, whose text outside debug mode is \<open>bad_request_text\<close>.
\<close>

definition st_empty :: state where
  "st_empty = \<lparr>files = Map.empty, disk = Written, log = []\<rparr>"

definition utc_host_clock :: clock where
  "utc_host_clock =
     \<lparr>localtime = \<lparr>tm_year = 2026, tm_mon = 11, tm_mday = 4, tm_hour = 14, tm_min = 4, tm_sec = 5\<rparr>,
      gmtime = \<lparr>tm_year = 2026, tm_mon = 11, tm_mday = 4, tm_hour = 14, tm_min = 4, tm_sec = 5\<rparr>\<rparr>"

definition q :: "string \<Rightarrow> string" where
  "q s = [CHR 0x22] @ s @ [CHR 0x22]"

definition post_request :: "string \<Rightarrow> (string \<times> json) list \<Rightarrow> request" where
  "post_request raw d = \<lparr>rmethod = POST, rdata = raw, get_json = Inr (JObj d)\<rparr>"

definition put_request :: "string \<Rightarrow> exn + json \<Rightarrow> request" where
  "put_request raw parsed = \<lparr>rmethod = PUT, rdata = raw, get_json = parsed\<rparr>"

definition delete_request :: request where
  "delete_request = \<lparr>rmethod = DELETE, rdata = [], get_json = Inr JNull\<rparr>"

definition list_request :: request where
  "list_request = \<lparr>rmethod = GET, rdata = [], get_json = Inr JNull\<rparr>"

definition ticket :: "int \<Rightarrow> json" where
  "ticket n = JObj [(''id'', JInt n), (''created_at'', JStr ''2026-11-04T14:04:05.000Z'')]"

definition three_created :: state where
  "three_created =
     snd (module_list (snd (module_list (snd (module_list st_empty
       utc_host_clock ''tickets'' (post_request ''{}'' [])))
       utc_host_clock ''tickets'' (post_request ''{}'' [])))
       utc_host_clock ''tickets'' (post_request ''{}'' []))"

definition gap_state :: state where
  "gap_state = snd (module_item three_created ''tickets'' 2 delete_request)"

definition tools_state :: state where
  "tools_state =
     \<lparr>files = [''tools.json'' \<mapsto> Content (JArr
         [JObj [(''id'', JInt 5), (''name'', JStr ''old''), (''admin'', JBool True)]])],
      disk = Written, log = []\<rparr>"

definition put_ticket_2 :: request where
  "put_ticket_2 =
     put_request (''{'' @ q ''id'' @ '': 2, '' @ q ''created_at'' @ '': ''
         @ q ''2026-11-04T14:04:05.000Z'' @ ''}'')
       (Inr (ticket 2))"

definition failing_disk_state :: state where
  "failing_disk_state = tools_state\<lparr>disk := DumpRaises\<rparr>"

definition faq_request :: request where
  "faq_request =
     post_request (''{'' @ q ''question'' @ '':'' @ q ''Q'' @ '','' @ q ''answer'' @ '':''
         @ q ''A'' @ ''}'')
       [(''question'', JStr ''Q''), (''answer'', JStr ''A'')]"

definition cet_host_clock :: clock where
  "cet_host_clock =
     \<lparr>localtime = \<lparr>tm_year = 2026, tm_mon = 11, tm_mday = 4, tm_hour = 15, tm_min = 4, tm_sec = 5\<rparr>,
      gmtime = \<lparr>tm_year = 2026, tm_mon = 11, tm_mday = 4, tm_hour = 14, tm_min = 4, tm_sec = 5\<rparr>\<rparr>"

definition bad_request_text :: string where
  "bad_request_text = ''400 Bad Request: The browser (or proxy) sent a request that this server could not understand.''"

definition malformed_post :: request where
  "malformed_post = \<lparr>rmethod = POST, rdata = ''{bad'', get_json = Inl (BadRequest bad_request_text)\<rparr>"

definition malformed_put :: request where
  "malformed_put = put_request ''{bad'' (Inl (BadRequest bad_request_text))"

section \<open>Auxiliary lemmas\<close>

subsection \<open>The id search of create\<close>

lemma next_free_ge: "n \<le> next_free n ids"
proof (induction n ids rule: next_free.induct)
  case (1 n ids)
  show ?case
  proof (cases "n \<in> set ids")
    case True
    with 1 have "n + 1 \<le> next_free (n + 1) ids" by simp
    with True show ?thesis by (simp add: next_free.simps[of n])
  next
    case False
    then show ?thesis by (simp add: next_free.simps[of n])
  qed
qed

lemma next_free_notin: "next_free n ids \<notin> set ids"
proof (induction n ids rule: next_free.induct)
  case (1 n ids)
  show ?case
  proof (cases "n \<in> set ids")
    case True
    with 1 show ?thesis by (simp add: next_free.simps[of n])
  next
    case False
    then show ?thesis by (simp add: next_free.simps[of n])
  qed
qed

lemma next_free_below: "n \<le> k \<Longrightarrow> k < next_free n ids \<Longrightarrow> k \<in> set ids"
proof (induction n ids rule: next_free.induct)
  case (1 n ids)
  show ?case
  proof (cases "n \<in> set ids")
    case True
    show ?thesis
    proof (cases "k = n")
      case True
      with \<open>n \<in> set ids\<close> show ?thesis by simp
    next
      case False
      with 1 True show ?thesis by (simp add: next_free.simps[of n])
    qed
  next
    case False
    with 1 show ?thesis by (simp add: next_free.simps[of n])
  qed
qed

lemma existing_ids_records:
  "list_all is_dict xs \<Longrightarrow>
   \<exists>ids. existing_ids xs = Inr ids \<and>
     set ids = {int_value v |d v. JObj d \<in> set xs \<and> map_of d ''id'' = Some v \<and> isinstance_int v}"
proof (induction xs)
  case Nil
  then show ?case by simp
next
  case (Cons x xs)
  then obtain d where x: "x = JObj d" by (auto simp: is_dict_def split: json.splits)
  from Cons obtain ids where ids: "existing_ids xs = Inr ids"
    "set ids = {int_value v |d v. JObj d \<in> set xs \<and> map_of d ''id'' = Some v \<and> isinstance_int v}"
    by auto
  show ?case
  proof (cases "map_of d ''id''")
    case None
    with x ids show ?thesis by auto
  next
    case (Some v)
    with x ids show ?thesis by (cases "isinstance_int v") auto
  qed
qed

subsection \<open>Dicts\<close>

lemma map_of_dict_set: "map_of (dict_set d k v) = (map_of d)(k \<mapsto> v)"
  by (induction d) (auto simp: fun_eq_iff)

lemma dict_set_same: "map_of d k = Some v \<Longrightarrow> dict_set d k v = d"
  by (induction d) (auto split: if_splits)

lemma dict_contains_dict_set:
  "dict_contains (dict_set d k v) k' = (k' = k \<or> dict_contains d k')"
  by (auto simp: dict_contains_def map_of_dict_set)

lemma map_of_setdefault:
  "map_of (setdefault d k v) k' = (if k' = k \<and> map_of d k = None then Some v else map_of d k')"
  by (auto simp: setdefault_def dict_contains_def map_add_def split: option.splits)

lemma map_of_setdefault_present:
  "map_of d k = Some v \<Longrightarrow> map_of (setdefault d k' v') k = Some v"
  by (auto simp: map_of_setdefault)

lemma map_of_setdefault_key:
  "map_of (setdefault d k v) k = Some (case map_of d k of None \<Rightarrow> v | Some w \<Rightarrow> w)"
  by (auto simp: map_of_setdefault split: option.splits)

lemma map_of_setdefault_other:
  "k \<noteq> k' \<Longrightarrow> map_of (setdefault d k' v) k = map_of d k"
  by (simp add: map_of_setdefault)

lemma map_of_set_created_at:
  "k \<noteq> ''created_at'' \<Longrightarrow> map_of (set_created_at clk d) k = map_of d k"
  by (simp add: set_created_at_def map_of_dict_set)

lemma map_of_tools_defaults_present:
  "map_of d k = Some v \<Longrightarrow> map_of (tools_defaults mname d) k = Some v"
  by (simp add: tools_defaults_def map_of_setdefault_present)

lemma map_of_faq_defaults_present:
  "map_of d k = Some v \<Longrightarrow> map_of (faq_defaults mname d) k = Some v"
  by (simp add: faq_defaults_def map_of_setdefault_present)

lemma fill_item_id: "map_of (fill_item clk mname n d) ''id'' = Some (JInt n)"
  by (simp add: fill_item_def map_of_faq_defaults_present map_of_tools_defaults_present
      map_of_set_created_at map_of_dict_set)

lemma tools_defaults_tools:
  "map_of (tools_defaults ''tools'' d) ''admin'' =
     Some (case map_of d ''admin'' of None \<Rightarrow> JBool False | Some v \<Rightarrow> v)"
  "map_of (tools_defaults ''tools'' d) ''autostart'' =
     Some (case map_of d ''autostart'' of None \<Rightarrow> JBool False | Some v \<Rightarrow> v)"
  "map_of (tools_defaults ''tools'' d) ''tags'' =
     Some (case map_of d ''tags'' of None \<Rightarrow> JArr [] | Some v \<Rightarrow> v)"
  "map_of (tools_defaults ''tools'' d) ''favorite'' =
     Some (case map_of d ''favorite'' of None \<Rightarrow> JBool False | Some v \<Rightarrow> v)"
  by (simp_all add: tools_defaults_def map_of_setdefault_key map_of_setdefault_other)

lemma faq_defaults_faq:
  "map_of (faq_defaults ''faq'' d) ''tags'' =
     Some (case map_of d ''tags'' of None \<Rightarrow> JArr [] | Some v \<Rightarrow> v)"
  "map_of (faq_defaults ''faq'' d) ''favorite'' =
     Some (case map_of d ''favorite'' of None \<Rightarrow> JBool False | Some v \<Rightarrow> v)"
  "map_of (faq_defaults ''faq'' d) ''attachments'' =
     Some (case map_of d ''attachments'' of None \<Rightarrow> JArr [] | Some v \<Rightarrow> v)"
  by (simp_all add: faq_defaults_def map_of_setdefault_key map_of_setdefault_other)

lemma defaults_other_collection:
  "mname \<noteq> ''tools'' \<Longrightarrow> tools_defaults mname d = d"
  "mname \<noteq> ''faq'' \<Longrightarrow> faq_defaults mname d = d"
  by (simp_all add: tools_defaults_def faq_defaults_def)

lemma fill_item_tools:
  "map_of (fill_item clk ''tools'' n d) ''admin'' =
     Some (case map_of d ''admin'' of None \<Rightarrow> JBool False | Some v \<Rightarrow> v)"
  "map_of (fill_item clk ''tools'' n d) ''autostart'' =
     Some (case map_of d ''autostart'' of None \<Rightarrow> JBool False | Some v \<Rightarrow> v)"
  "map_of (fill_item clk ''tools'' n d) ''tags'' =
     Some (case map_of d ''tags'' of None \<Rightarrow> JArr [] | Some v \<Rightarrow> v)"
  "map_of (fill_item clk ''tools'' n d) ''favorite'' =
     Some (case map_of d ''favorite'' of None \<Rightarrow> JBool False | Some v \<Rightarrow> v)"
  by (simp_all add: fill_item_def defaults_other_collection tools_defaults_tools
      map_of_set_created_at map_of_dict_set)

lemma fill_item_faq:
  "map_of (fill_item clk ''faq'' n d) ''tags'' =
     Some (case map_of d ''tags'' of None \<Rightarrow> JArr [] | Some v \<Rightarrow> v)"
  "map_of (fill_item clk ''faq'' n d) ''favorite'' =
     Some (case map_of d ''favorite'' of None \<Rightarrow> JBool False | Some v \<Rightarrow> v)"
  "map_of (fill_item clk ''faq'' n d) ''attachments'' =
     Some (case map_of d ''attachments'' of None \<Rightarrow> JArr [] | Some v \<Rightarrow> v)"
  by (simp_all add: fill_item_def defaults_other_collection faq_defaults_faq
      map_of_set_created_at map_of_dict_set)

lemma fill_item_plain:
  "mname \<noteq> ''tools'' \<Longrightarrow> mname \<noteq> ''faq'' \<Longrightarrow> k \<noteq> ''id'' \<Longrightarrow> k \<noteq> ''created_at'' \<Longrightarrow>
   map_of (fill_item clk mname n d) k = map_of d k"
  by (simp add: fill_item_def defaults_other_collection map_of_set_created_at map_of_dict_set)

lemma fill_item_created_at:
  "map_of (fill_item clk mname n d) ''created_at'' =
     Some (case map_of d ''created_at'' of
             None \<Rightarrow> JStr (get_timestamp_iso clk)
           | Some v \<Rightarrow> v)"
proof -
  have "map_of (set_created_at clk (dict_set d ''id'' (JInt n))) ''created_at'' =
      Some (case map_of d ''created_at'' of None \<Rightarrow> JStr (get_timestamp_iso clk) | Some v \<Rightarrow> v)"
    by (auto simp: set_created_at_def dict_contains_def map_of_dict_set split: option.splits)
  then show ?thesis
    by (simp add: fill_item_def map_of_faq_defaults_present map_of_tools_defaults_present)
qed

subsection \<open>Loading and saving\<close>

lemma files_load_json: "files (snd (load_json st f)) = files st"
  by (simp add: load_json_def split: option.splits file_state.splits)

lemma disk_load_json: "disk (snd (load_json st f)) = disk st"
  by (simp add: load_json_def split: option.splits file_state.splits)

lemma disk_ok_load_json: "disk_ok (snd (load_json st f)) = disk_ok st"
  by (simp add: disk_ok_def disk_load_json)

lemma load_json_pair: "load_json st f = (fst (load_json st f), snd (load_json st f))"
  by simp

lemma load_json_load_json:
  "fst (load_json (snd (load_json st f)) g) = fst (load_json st g)"
  by (simp add: load_json_def split: option.splits file_state.splits)

lemma load_json_save_json:
  "fst (load_json (snd (save_json st f v)) f) =
     (case disk st of
        Written \<Rightarrow> v
      | OpenRaises \<Rightarrow> fst (load_json st f)
      | DumpRaises \<Rightarrow> JArr [])"
  by (simp add: load_json_def save_json_def
      split: option.splits file_state.splits write_outcome.splits)

lemma load_json_save_json_ok:
  "disk_ok st \<Longrightarrow> fst (load_json (snd (save_json st f v)) f) = v"
  by (simp add: load_json_save_json disk_ok_def)

lemma log_save_json_failed:
  "\<not> disk_ok st \<Longrightarrow> log (snd (save_json st f v)) = log st @ [SaveError f]"
  by (cases "disk st") (simp_all add: save_json_def disk_ok_def)

lemma load_json_files_cong:
  "files st' = files st \<Longrightarrow> fst (load_json st' f) = fst (load_json st f)"
  by (simp add: load_json_def split: option.splits file_state.splits)

lemma load_after_save_cases:
  "fst (load_json (snd (save_json (snd (load_json st f)) f v)) f) = v
   \<or> fst (load_json (snd (save_json (snd (load_json st f)) f v)) f) = fst (load_json st f)
   \<or> fst (load_json (snd (save_json (snd (load_json st f)) f v)) f) = JArr []"
  by (cases "disk st") (simp_all add: load_json_save_json load_json_load_json disk_load_json)

subsection \<open>The handlers on a list of records\<close>

lemma module_list_get:
  "rmethod req = GET \<Longrightarrow>
   fst (module_list st clk mname req) = jsonify (fst (load_json st (mname @ ''.json''))) 200"
  by (simp add: module_list_def split: prod.splits)

lemma module_list_post_record:
  assumes load: "fst (load_json st (mname @ ''.json'')) = JArr xs"
    and ids: "existing_ids xs = Inr ids"
    and req: "rmethod req = POST" "rdata req \<noteq> []" "get_json req = Inr (JObj d)"
  shows "module_list st clk mname req =
           (jsonify (JObj (fill_item clk mname (next_free 1 ids) d)) 201,
            snd (save_json (snd (load_json st (mname @ ''.json''))) (mname @ ''.json'')
                   (JArr (xs @ [JObj (fill_item clk mname (next_free 1 ids) d)]))))"
proof -
  obtain st1 where l: "load_json st (mname @ ''.json'') = (JArr xs, st1)"
    using load by (metis load_json_pair)
  show ?thesis
    using ids req
    by (simp add: module_list_def l create_def create_item_def append_and_save_def)
qed

lemma find_idx_records:
  "list_all is_dict xs \<Longrightarrow>
   (\<forall>x\<in>set xs. \<not> has_id x item_id) \<and> find_idx xs item_id i = Inr None \<or>
   (\<exists>idx. idx < length xs \<and> has_id (xs ! idx) item_id \<and> (\<forall>j<idx. \<not> has_id (xs ! j) item_id)
      \<and> find_idx xs item_id i = Inr (Some (i + idx)))"
proof (induction xs arbitrary: i)
  case Nil
  then show ?case by simp
next
  case (Cons x xs)
  then obtain d where x: "x = JObj d"
    by (auto simp: is_dict_def split: json.splits)
  show ?case
  proof (cases "has_id x item_id")
    case True
    then have "find_idx (x # xs) item_id i = Inr (Some (i + 0))"
      using x by (simp add: has_id_def)
    with True show ?thesis
      by (intro disjI2 exI [of _ 0]) simp
  next
    case False
    from Cons have recs: "list_all is_dict xs" by simp
    from False x have step: "find_idx (x # xs) item_id i = find_idx xs item_id (Suc i)"
      by (simp add: has_id_def)
    from Cons.IH [OF recs, of "Suc i"] show ?thesis
    proof
      assume "(\<forall>x\<in>set xs. \<not> has_id x item_id) \<and> find_idx xs item_id (Suc i) = Inr None"
      with False step show ?thesis by simp
    next
      assume "\<exists>idx<length xs. has_id (xs ! idx) item_id \<and> (\<forall>j<idx. \<not> has_id (xs ! j) item_id)
        \<and> find_idx xs item_id (Suc i) = Inr (Some (Suc i + idx))"
      then obtain idx where idx: "idx < length xs" "has_id (xs ! idx) item_id"
        "\<forall>j<idx. \<not> has_id (xs ! j) item_id"
        "find_idx xs item_id (Suc i) = Inr (Some (Suc i + idx))"
        by blast
      have "\<forall>j<Suc idx. \<not> has_id ((x # xs) ! j) item_id"
        using False idx(3) by (auto simp: less_Suc_eq_0_disj)
      with idx step show ?thesis
        by (intro disjI2 exI [of _ "Suc idx"]) simp
    qed
  qed
qed

lemma find_idx_absent:
  "list_all is_dict xs \<Longrightarrow> \<forall>x\<in>set xs. \<not> has_id x item_id \<Longrightarrow> find_idx xs item_id 0 = Inr None"
  using find_idx_records [of xs item_id 0] nth_mem [of _ xs] by auto

lemma find_idx_present:
  "list_all is_dict xs \<Longrightarrow> \<exists>x\<in>set xs. has_id x item_id \<Longrightarrow>
   \<exists>idx. idx < length xs \<and> has_id (xs ! idx) item_id \<and> (\<forall>j<idx. \<not> has_id (xs ! j) item_id)
      \<and> find_idx xs item_id 0 = Inr (Some idx)"
  using find_idx_records [of xs item_id 0] by auto

lemma module_item_absent:
  assumes load: "fst (load_json st (mname @ ''.json'')) = JArr xs"
    and recs: "list_all is_dict xs"
    and absent: "\<forall>x\<in>set xs. \<not> has_id x item_id"
  shows "module_item st mname item_id req =
           (Inr (error_response ''Nicht gefunden'' 404), snd (load_json st (mname @ ''.json'')))"
proof -
  obtain st1 where l: "load_json st (mname @ ''.json'') = (JArr xs, st1)"
    using load by (metis load_json_pair)
  show ?thesis
    using find_idx_absent [OF recs absent] by (simp add: module_item_def l)
qed

lemma module_item_present:
  assumes load: "fst (load_json st (mname @ ''.json'')) = JArr xs"
    and idx: "find_idx xs item_id 0 = Inr (Some idx)"
  shows "module_item st mname item_id req =
           item_found (snd (load_json st (mname @ ''.json''))) mname xs idx item_id req"
proof -
  obtain st1 where l: "load_json st (mname @ ''.json'') = (JArr xs, st1)"
    using load by (metis load_json_pair)
  show ?thesis
    using idx by (simp add: module_item_def l)
qed

lemma module_list_outcomes:
  assumes load: "fst (load_json st (mname @ ''.json'')) = JArr xs"
    and recs: "list_all is_dict xs"
  shows "files (snd (module_list st clk mname req)) = files st
    \<or> (\<exists>d ids. existing_ids xs = Inr ids \<and>
          snd (module_list st clk mname req) =
            snd (save_json (snd (load_json st (mname @ ''.json''))) (mname @ ''.json'')
                   (JArr (xs @ [JObj (fill_item clk mname (next_free 1 ids) d)]))))"
proof -
  obtain st1 where l: "load_json st (mname @ ''.json'') = (JArr xs, st1)"
    using load by (metis load_json_pair)
  have f1: "files st1 = files st"
    using files_load_json [of st "mname @ ''.json''"] by (simp add: l)
  from recs obtain ids where ids: "existing_ids xs = Inr ids"
    using existing_ids_records by blast
  show ?thesis
  proof (cases "rmethod req = GET")
    case True
    then show ?thesis by (simp add: module_list_def l f1)
  next
    case False
    show ?thesis
    proof (cases "create st1 clk mname (JArr xs) req")
      case (Inl e)
      with False show ?thesis by (simp add: module_list_def l f1)
    next
      case (Inr r)
      show ?thesis
      proof (cases "rdata req = []")
        case True
        with Inr False show ?thesis by (auto simp: module_list_def l f1 create_def)
      next
        case nonempty: False
        show ?thesis
        proof (cases "get_json req")
          case (Inl e)
          with Inr nonempty show ?thesis by (simp add: create_def)
        next
          case parsed: (Inr new_item)
          show ?thesis
          proof (cases new_item)
            case JNull
            with Inr False nonempty parsed show ?thesis
              by (auto simp: module_list_def l f1 create_def)
          next
            case (JObj d)
            with Inr False nonempty parsed ids have "snd (module_list st clk mname req) =
                snd (save_json st1 (mname @ ''.json'')
                   (JArr (xs @ [JObj (fill_item clk mname (next_free 1 ids) d)])))"
              by (auto simp: module_list_def l create_def create_item_def append_and_save_def)
            with ids show ?thesis by (auto simp: l)
          qed (use Inr nonempty parsed ids in \<open>simp_all add: create_def create_item_def\<close>)
        qed
      qed
    qed
  qed
qed

lemma module_item_outcomes:
  assumes load: "fst (load_json st (mname @ ''.json'')) = JArr xs"
    and recs: "list_all is_dict xs"
  shows "files (snd (module_item st mname item_id req)) = files st
    \<or> (\<exists>idx. idx < length xs \<and> has_id (xs ! idx) item_id \<and>
          (snd (module_item st mname item_id req) =
             snd (save_json (snd (load_json st (mname @ ''.json''))) (mname @ ''.json'')
                    (JArr (list_pop xs idx)))
           \<or> (\<exists>d. snd (module_item st mname item_id req) =
                 snd (save_json (snd (load_json st (mname @ ''.json''))) (mname @ ''.json'')
                    (JArr (xs[idx := JObj (dict_set d ''id'' (JInt item_id))]))))))"
proof (cases "\<exists>x\<in>set xs. has_id x item_id")
  case False
  then have "\<forall>x\<in>set xs. \<not> has_id x item_id" by blast
  from module_item_absent [OF load recs this, of req] show ?thesis
    by (simp add: files_load_json)
next
  case True
  from find_idx_present [OF recs True] obtain idx where
    idx: "idx < length xs" "has_id (xs ! idx) item_id"
    and found: "find_idx xs item_id 0 = Inr (Some idx)"
    by blast
  let ?st1 = "snd (load_json st (mname @ ''.json''))"
  note res = module_item_present [OF load found, of req]
  show ?thesis
  proof (cases "rmethod req = GET")
    case True
    then show ?thesis by (simp add: res item_found_def files_load_json)
  next
    case notget: False
    show ?thesis
    proof (cases "rmethod req = DELETE")
      case True
      then have "snd (module_item st mname item_id req) =
          snd (save_json ?st1 (mname @ ''.json'') (JArr (list_pop xs idx)))"
        by (simp add: res item_found_def)
      with idx show ?thesis by blast
    next
      case notdel: False
      show ?thesis
      proof (cases "replace ?st1 mname xs idx item_id req")
        case (Inl e)
        with notget notdel show ?thesis by (simp add: res item_found_def files_load_json)
      next
        case (Inr p)
        show ?thesis
        proof (cases "rdata req = []")
          case True
          with Inr notget notdel show ?thesis
            by (auto simp: res item_found_def replace_def files_load_json)
        next
          case nonempty: False
          show ?thesis
          proof (cases "get_json req")
            case (Inl e)
            with Inr nonempty show ?thesis by (simp add: replace_def)
          next
            case parsed: (Inr updated_item)
            show ?thesis
            proof (cases updated_item)
              case JNull
              with Inr notget notdel nonempty parsed show ?thesis
                by (auto simp: res item_found_def replace_def files_load_json)
            next
              case (JObj d)
              with Inr notget notdel nonempty parsed have
                "snd (module_item st mname item_id req) =
                   snd (save_json ?st1 (mname @ ''.json'')
                     (JArr (xs[idx := JObj (dict_set d ''id'' (JInt item_id))])))"
                by (auto simp: res item_found_def replace_def)
              with idx show ?thesis by blast
            qed (use Inr nonempty parsed in \<open>simp_all add: replace_def\<close>)
          qed
        qed
      qed
    qed
  qed
qed

lemma create_rejects_empty_or_null_body:
  assumes "rmethod req \<noteq> GET" "rdata req = [] \<or> get_json req = Inr JNull"
  shows "status (fst (module_list st clk mname req)) = 400
    \<and> snd (module_list st clk mname req) = snd (load_json st (mname @ ''.json''))"
  using assms
  by (auto simp: module_list_def create_def error_response_def jsonify_def split: prod.splits)

lemma create_answers_500_when_get_json_raises:
  assumes "rmethod req \<noteq> GET" "rdata req \<noteq> []" "get_json req = Inl e"
  shows "status (fst (module_list st clk mname req)) = 500
    \<and> files (snd (module_list st clk mname req)) = files st"
proof -
  obtain items st1 where l: "load_json st (mname @ ''.json'') = (items, st1)"
    by (cases "load_json st (mname @ ''.json'')")
  have "files st1 = files st"
    using files_load_json [of st "mname @ ''.json''"] by (simp add: l)
  with assms show ?thesis
    by (simp add: module_list_def l create_def error_response_def jsonify_def)
qed

lemma create_stamps_created_at:
  assumes load: "fst (load_json st (mname @ ''.json'')) = JArr xs"
    and recs: "list_all is_dict xs"
    and req: "rmethod req = POST" "rdata req \<noteq> []" "get_json req = Inr (JObj d)"
  shows "\<exists>r st'. module_list st clk mname req = (\<lparr>body = JObj r, status = 201\<rparr>, st')
    \<and> map_of r ''created_at'' =
        Some (case map_of d ''created_at'' of
                None \<Rightarrow> JStr (strftime_iso (localtime clk))
              | Some v \<Rightarrow> v)"
proof -
  from recs obtain ids where ids: "existing_ids xs = Inr ids"
    using existing_ids_records by blast
  from module_list_post_record [OF load ids req, of clk] show ?thesis
    by (simp add: jsonify_def fill_item_created_at get_timestamp_iso_def split: option.splits)
qed

subsection \<open>The invariant of the ids\<close>

lemma record_id_SomeD:
  "record_id x = Some n \<Longrightarrow> \<exists>d. x = JObj d \<and> map_of d ''id'' = Some (JInt n)"
  by (auto simp: record_id_def split: json.splits option.splits)

lemma record_id_is_dict: "record_id x = Some n \<Longrightarrow> is_dict x"
  by (auto simp: is_dict_def dest: record_id_SomeD)

lemma record_id_has_id: "record_id x = Some n \<Longrightarrow> has_id x m = (n = m)"
  by (auto simp: has_id_def dest!: record_id_SomeD)

lemma unique_positive_ids_records: "unique_positive_ids xs \<Longrightarrow> list_all is_dict xs"
  by (auto simp: unique_positive_ids_def list_all_iff intro: record_id_is_dict split: option.splits)

lemma record_id_fill_item: "record_id (JObj (fill_item clk mname n d)) = Some n"
  by (simp add: record_id_def fill_item_id)

lemma record_id_dict_set: "record_id (JObj (dict_set d ''id'' (JInt n))) = Some n"
  by (simp add: record_id_def map_of_dict_set)

lemma unique_positive_ids_Nil: "unique_positive_ids []"
  by (simp add: unique_positive_ids_def)

lemma record_id_in_existing_ids:
  assumes "list_all is_dict xs" "existing_ids xs = Inr ids" "x \<in> set xs" "record_id x = Some n"
  shows "n \<in> set ids"
proof -
  from existing_ids_records [OF assms(1)] assms(2) have "set ids =
      {int_value v |e v. JObj e \<in> set xs \<and> map_of e ''id'' = Some v \<and> isinstance_int v}"
    by simp
  moreover from record_id_SomeD [OF assms(4)] obtain d where
    "x = JObj d" "map_of d ''id'' = Some (JInt n)"
    by blast
  ultimately show ?thesis
    using assms(3) by force
qed

lemma unique_positive_ids_append:
  assumes inv: "unique_positive_ids xs"
    and ids: "existing_ids xs = Inr ids"
  shows "unique_positive_ids (xs @ [JObj (fill_item clk mname (next_free 1 ids) d)])"
proof -
  let ?n = "next_free 1 ids"
  have pos: "0 < ?n"
    using next_free_ge [of 1 ids] by simp
  have "Some ?n \<notin> record_id ` set xs"
  proof
    assume "Some ?n \<in> record_id ` set xs"
    then obtain x where "x \<in> set xs" "record_id x = Some ?n"
      by force
    from record_id_in_existing_ids [OF unique_positive_ids_records [OF inv] ids this]
    show False
      using next_free_notin [of 1 ids] by simp
  qed
  with inv pos show ?thesis
    by (simp add: unique_positive_ids_def record_id_fill_item)
qed

lemma unique_positive_ids_pop:
  assumes inv: "unique_positive_ids xs"
  shows "unique_positive_ids (list_pop xs idx)"
proof -
  let ?ys = "map record_id xs"
  from inv have d: "distinct ?ys"
    by (simp add: unique_positive_ids_def)
  have "set (take idx ?ys) \<inter> set (drop (Suc idx) ?ys) = {}"
    using d by (rule set_take_disj_set_drop_if_distinct) simp
  with d have "distinct (take idx ?ys @ drop (Suc idx) ?ys)"
    by simp
  then have "distinct (map record_id (list_pop xs idx))"
    by (simp add: list_pop_def take_map drop_map)
  moreover have "set (list_pop xs idx) \<subseteq> set xs"
    using set_take_subset [of idx xs] set_drop_subset [of "Suc idx" xs]
    by (auto simp: list_pop_def)
  ultimately show ?thesis
    using inv by (auto simp: unique_positive_ids_def list_all_iff)
qed

lemma unique_positive_ids_update:
  assumes inv: "unique_positive_ids xs"
    and idx: "idx < length xs" "has_id (xs ! idx) item_id"
  shows "unique_positive_ids (xs[idx := JObj (dict_set d ''id'' (JInt item_id))])"
proof -
  let ?r = "JObj (dict_set d ''id'' (JInt item_id))"
  from inv idx(1) obtain m where m: "record_id (xs ! idx) = Some m" "0 < m"
    by (auto simp: unique_positive_ids_def list_all_length split: option.splits)
  with idx(2) have eq: "m = item_id"
    by (simp add: record_id_has_id)
  have "map record_id (xs[idx := ?r]) = (map record_id xs)[idx := record_id (xs ! idx)]"
    by (simp add: map_update record_id_dict_set m eq)
  also have "\<dots> = map record_id xs"
    using idx(1) by (simp add: list_update_same_conv)
  finally have same: "map record_id (xs[idx := ?r]) = map record_id xs" .
  have "list_all (\<lambda>x. case record_id x of Some n \<Rightarrow> 0 < n | None \<Rightarrow> False) (xs[idx := ?r])"
    using inv m eq set_update_subset_insert [of xs idx ?r]
    by (auto simp: unique_positive_ids_def list_all_iff record_id_dict_set)
  with inv same show ?thesis
    by (simp add: unique_positive_ids_def)
qed

subsection \<open>Evaluation of the examples\<close>

lemmas eval_defs = module_list_def module_item_def load_json_def save_json_def create_def
  create_item_def append_and_save_def fill_item_def set_created_at_def tools_defaults_def
  faq_defaults_def setdefault_def
  dict_contains_def item_found_def replace_def list_pop_def jsonify_def error_response_def
  get_timestamp_iso_def strftime_iso_def pad2_def pad4_def digit_def next_free.simps
  st_empty_def utc_host_clock_def post_request_def delete_request_def is_dict_def

lemma three_created_tickets:
  "fst (load_json three_created (''tickets'' @ ''.json'')) = JArr [ticket 1, ticket 2, ticket 3]"
  by (simp add: three_created_def ticket_def eval_defs)

lemma disk_ok_three_created: "disk_ok three_created"
  by (simp add: three_created_def disk_ok_def eval_defs)

section \<open>The claims\<close>

text \<open>
  C1.  On a collection that is a list of records, a create with a JSON object as body
  answers 201 with a record whose \<open>id\<close> is the smallest positive integer that is not
  the value of an integer \<open>id\<close> field of an existing record.  Integer means what the code
  tests, \<^verbatim>\<open>isinstance(v, int)\<close>, under which Python counts \<^verbatim>\<open>True\<close> as 1 and \<^verbatim>\<open>False\<close> as
  0.  The witness is the scenario of the claim: three creates into an empty collection
  get the ids 1, 2 and 3, the record 2 is deleted, and the next create gets the id 2,
  not 4.
\<close>

theorem create_assigns_smallest_free_id:
  assumes load: "fst (load_json st (mname @ ''.json'')) = JArr xs"
    and recs: "list_all is_dict xs"
    and req: "rmethod req = POST" "rdata req \<noteq> []" "get_json req = Inr (JObj d)"
  shows "\<exists>r st' n. module_list st clk mname req = (\<lparr>body = JObj r, status = 201\<rparr>, st')
     \<and> map_of r ''id'' = Some (JInt n) \<and> 0 < n
     \<and> n \<notin> {int_value v |e v. JObj e \<in> set xs \<and> map_of e ''id'' = Some v \<and> isinstance_int v}
     \<and> (\<forall>k. 0 < k \<and> k < n \<longrightarrow>
           k \<in> {int_value v |e v. JObj e \<in> set xs \<and> map_of e ''id'' = Some v \<and> isinstance_int v})"
proof -
  from recs obtain ids where ids: "existing_ids xs = Inr ids"
    and set_ids: "set ids =
      {int_value v |e v. JObj e \<in> set xs \<and> map_of e ''id'' = Some v \<and> isinstance_int v}"
    using existing_ids_records by blast
  let ?n = "next_free 1 ids"
  have res: "module_list st clk mname req =
      (\<lparr>body = JObj (fill_item clk mname ?n d), status = 201\<rparr>,
       snd (save_json (snd (load_json st (mname @ ''.json''))) (mname @ ''.json'')
              (JArr (xs @ [JObj (fill_item clk mname ?n d)]))))"
    using module_list_post_record [OF load ids req] by (simp add: jsonify_def)
  have pos: "0 < ?n"
    using next_free_ge [of 1 ids] by simp
  have fresh: "?n \<notin> set ids"
    by (rule next_free_notin)
  have least: "\<forall>k. 0 < k \<and> k < ?n \<longrightarrow> k \<in> set ids"
    using next_free_below [of 1 _ ids] by auto
  from res fill_item_id pos fresh least show ?thesis
    unfolding set_ids by blast
qed

theorem create_assigns_smallest_free_id_witness:
  "fst (load_json gap_state (''tickets'' @ ''.json'')) =
     JArr [JObj [(''id'', JInt 1), (''created_at'', JStr ''2026-11-04T14:04:05.000Z'')],
           JObj [(''id'', JInt 3), (''created_at'', JStr ''2026-11-04T14:04:05.000Z'')]]
   \<and> list_all is_dict
        [JObj [(''id'', JInt 1), (''created_at'', JStr ''2026-11-04T14:04:05.000Z'')],
         JObj [(''id'', JInt 3), (''created_at'', JStr ''2026-11-04T14:04:05.000Z'')]]
   \<and> rmethod (post_request ''{}'' []) = POST
   \<and> rdata (post_request ''{}'' []) \<noteq> []
   \<and> get_json (post_request ''{}'' []) = Inr (JObj [])
   \<and> (\<exists>r st'. module_list gap_state utc_host_clock ''tickets'' (post_request ''{}'' []) =
          (\<lparr>body = JObj r, status = 201\<rparr>, st')
        \<and> map_of r ''id'' = Some (JInt 2) \<and> map_of r ''id'' \<noteq> Some (JInt 4))"
proof -
  let ?xs = "[JObj [(''id'', JInt 1), (''created_at'', JStr ''2026-11-04T14:04:05.000Z'')],
              JObj [(''id'', JInt 3), (''created_at'', JStr ''2026-11-04T14:04:05.000Z'')]]"
  have load: "fst (load_json gap_state (''tickets'' @ ''.json'')) = JArr ?xs"
    by (simp add: gap_state_def three_created_def eval_defs)
  have recs: "list_all is_dict ?xs"
    by (simp add: is_dict_def)
  have req: "rmethod (post_request ''{}'' []) = POST" "rdata (post_request ''{}'' []) \<noteq> []"
    "get_json (post_request ''{}'' []) = Inr (JObj [])"
    by (simp_all add: post_request_def)
  from create_assigns_smallest_free_id [OF load recs req, of utc_host_clock]
  obtain r st' where res: "module_list gap_state utc_host_clock ''tickets'' (post_request ''{}'' []) =
      (\<lparr>body = JObj r, status = 201\<rparr>, st')"
    by blast
  have "fst (module_list gap_state utc_host_clock ''tickets'' (post_request ''{}'' [])) =
      \<lparr>body = JObj [(''id'', JInt 2), (''created_at'', JStr ''2026-11-04T14:04:05.000Z'')],
       status = 201\<rparr>"
    by (simp add: gap_state_def three_created_def eval_defs)
  with res have "r = [(''id'', JInt 2), (''created_at'', JStr ''2026-11-04T14:04:05.000Z'')]"
    by simp
  then have "map_of r ''id'' = Some (JInt 2) \<and> map_of r ''id'' \<noteq> Some (JInt 4)"
    by simp
  with load recs req res show ?thesis
    by blast
qed

text \<open>
  C2.  On a collection that is a list of records and has a record with the path id, a
  replace with a JSON object as body answers 200 with the body in which \<open>id\<close> is the path
  id and every other key is as submitted, and hands the list with that record at the
  position of the first record of that id to \<^verbatim>\<open>save_json\<close>.  The witness is
  \<^verbatim>\<open>Replace("tools", 5, {"id": 99, "name": "x"})\<close>, whose stored record has the id 5.
\<close>

theorem replace_forces_path_id:
  assumes load: "fst (load_json st (mname @ ''.json'')) = JArr xs"
    and recs: "list_all is_dict xs"
    and present: "\<exists>x\<in>set xs. has_id x item_id"
    and req: "rmethod req = PUT" "rdata req \<noteq> []" "get_json req = Inr (JObj d)"
  shows "\<exists>idx r.
      idx < length xs \<and> has_id (xs ! idx) item_id \<and> (\<forall>j<idx. \<not> has_id (xs ! j) item_id)
    \<and> module_item st mname item_id req =
        (Inr \<lparr>body = JObj r, status = 200\<rparr>,
         snd (save_json (snd (load_json st (mname @ ''.json''))) (mname @ ''.json'')
                (JArr (xs[idx := JObj r]))))
    \<and> map_of r ''id'' = Some (JInt item_id)
    \<and> (\<forall>k. k \<noteq> ''id'' \<longrightarrow> map_of r k = map_of d k)
    \<and> (disk_ok st \<longrightarrow>
         fst (load_json (snd (module_item st mname item_id req)) (mname @ ''.json'')) =
           JArr (xs[idx := JObj r]))"
proof -
  from find_idx_present [OF recs present] obtain idx where
    idx: "idx < length xs" "has_id (xs ! idx) item_id" "\<forall>j<idx. \<not> has_id (xs ! j) item_id"
    and found: "find_idx xs item_id 0 = Inr (Some idx)"
    by blast
  let ?r = "dict_set d ''id'' (JInt item_id)"
  let ?f = "mname @ ''.json''"
  have res: "module_item st mname item_id req =
      (Inr \<lparr>body = JObj ?r, status = 200\<rparr>,
       snd (save_json (snd (load_json st ?f)) ?f (JArr (xs[idx := JObj ?r]))))"
    using req by (simp add: module_item_present [OF load found] item_found_def replace_def jsonify_def)
  have id: "map_of ?r ''id'' = Some (JInt item_id)"
    by (simp add: map_of_dict_set)
  have others: "\<forall>k. k \<noteq> ''id'' \<longrightarrow> map_of ?r k = map_of d k"
    by (simp add: map_of_dict_set)
  have stored: "disk_ok st \<longrightarrow>
      fst (load_json (snd (module_item st mname item_id req)) ?f) = JArr (xs[idx := JObj ?r])"
    by (simp add: res load_json_save_json_ok disk_ok_load_json)
  from idx res id others stored show ?thesis
    by blast
qed

theorem replace_forces_path_id_witness:
  "fst (load_json tools_state (''tools'' @ ''.json'')) =
     JArr [JObj [(''id'', JInt 5), (''name'', JStr ''old''), (''admin'', JBool True)]]
   \<and> list_all is_dict [JObj [(''id'', JInt 5), (''name'', JStr ''old''), (''admin'', JBool True)]]
   \<and> (\<exists>x\<in>set [JObj [(''id'', JInt 5), (''name'', JStr ''old''), (''admin'', JBool True)]].
        has_id x 5)
   \<and> (\<exists>r st'. module_item tools_state ''tools'' 5
          (put_request (''{'' @ q ''id'' @ '': 99, '' @ q ''name'' @ '': '' @ q ''x'' @ ''}'')
             (Inr (JObj [(''id'', JInt 99), (''name'', JStr ''x'')]))) =
            (Inr \<lparr>body = JObj r, status = 200\<rparr>, st')
        \<and> map_of r ''id'' = Some (JInt 5)
        \<and> r = [(''id'', JInt 5), (''name'', JStr ''x'')]
        \<and> files st' ''tools.json'' =
            Some (Content (JArr [JObj [(''id'', JInt 5), (''name'', JStr ''x'')]])))"
proof -
  let ?xs = "[JObj [(''id'', JInt 5), (''name'', JStr ''old''), (''admin'', JBool True)]]"
  let ?req = "put_request (''{'' @ q ''id'' @ '': 99, '' @ q ''name'' @ '': '' @ q ''x'' @ ''}'')
           (Inr (JObj [(''id'', JInt 99), (''name'', JStr ''x'')]))"
  have load: "fst (load_json tools_state (''tools'' @ ''.json'')) = JArr ?xs"
    by (simp add: tools_state_def load_json_def)
  have recs: "list_all is_dict ?xs"
    by (simp add: is_dict_def)
  have present: "\<exists>x\<in>set ?xs. has_id x 5"
    by (simp add: has_id_def)
  have req: "rmethod ?req = PUT" "rdata ?req \<noteq> []"
    "get_json ?req = Inr (JObj [(''id'', JInt 99), (''name'', JStr ''x'')])"
    by (simp_all add: put_request_def q_def)
  from replace_forces_path_id [OF load recs present req]
  obtain r st' where res: "module_item tools_state ''tools'' 5 ?req =
        (Inr \<lparr>body = JObj r, status = 200\<rparr>, st')"
    and id: "map_of r ''id'' = Some (JInt 5)"
    by blast
  have "module_item tools_state ''tools'' 5 ?req =
      (Inr \<lparr>body = JObj [(''id'', JInt 5), (''name'', JStr ''x'')], status = 200\<rparr>,
       tools_state\<lparr>files := [''tools.json'' \<mapsto>
         Content (JArr [JObj [(''id'', JInt 5), (''name'', JStr ''x'')]])]\<rparr>)"
    by (simp add: tools_state_def put_request_def q_def has_id_def eval_defs)
  with res have "r = [(''id'', JInt 5), (''name'', JStr ''x'')]"
    and "files st' ''tools.json'' =
      Some (Content (JArr [JObj [(''id'', JInt 5), (''name'', JStr ''x'')]]))"
    by auto
  with load recs present res id show ?thesis
    by blast
qed

text \<open>
  C3, at an input where the code departs from it.  A create on the collection
  \<^verbatim>\<open>tools\<close> and a replace of its record 5 carry the body \<^verbatim>\<open>{bad\<close>, on which
  \<^verbatim>\<open>request.get_json()\<close> raises \<^verbatim>\<open>BadRequest\<close>.  The exception is an \<^verbatim>\<open>Exception\<close>, so the
  handler's own \<^verbatim>\<open>except\<close> catches it and the answer is 500 with the text of the
  exception, not 400; the 400 of the branch \<^verbatim>\<open>new_item is None\<close> is reached for a body
  that parses to \<^verbatim>\<open>null\<close> only.  The files stay as they were.
\<close>

theorem malformed_json_answers_500:
  "rdata malformed_post \<noteq> [] \<and> get_json malformed_post = Inl (BadRequest bad_request_text)
   \<and> fst (module_list tools_state utc_host_clock ''tools'' malformed_post) =
        \<lparr>body = JObj [(''error'', JStr (''Fehler beim Erstellen: '' @ bad_request_text))],
         status = 500\<rparr>
   \<and> files (snd (module_list tools_state utc_host_clock ''tools'' malformed_post)) =
        files tools_state
   \<and> fst (module_item tools_state ''tools'' 5 malformed_put) =
        Inr \<lparr>body = JObj [(''error'', JStr (''Fehler beim Aktualisieren: '' @ bad_request_text))],
             status = 500\<rparr>
   \<and> files (snd (module_item tools_state ''tools'' 5 malformed_put)) = files tools_state"
  by (simp add: malformed_post_def malformed_put_def put_request_def tools_state_def
      module_list_def module_item_def load_json_def create_def item_found_def replace_def
      error_response_def jsonify_def)

text \<open>
  C4.  When the collection is a list of records with unique positive integer ids, it is
  one again after any request to the list handler (a create among them) and after any
  request to the item handler (a replace or a delete among them), whether the request
  succeeds, is rejected, or the write fails.
\<close>

theorem mutations_preserve_unique_positive_ids:
  assumes load: "fst (load_json st (mname @ ''.json'')) = JArr xs"
    and inv: "unique_positive_ids xs"
  shows "(\<exists>xs'. fst (load_json (snd (module_list st clk mname req)) (mname @ ''.json'')) = JArr xs'
            \<and> unique_positive_ids xs')
       \<and> (\<exists>xs'. fst (load_json (snd (module_item st mname item_id req)) (mname @ ''.json''))
              = JArr xs'
            \<and> unique_positive_ids xs')"
proof
  note recs = unique_positive_ids_records [OF inv]
  let ?f = "mname @ ''.json''"
  from module_list_outcomes [OF load recs, of clk req]
  show "\<exists>xs'. fst (load_json (snd (module_list st clk mname req)) ?f) = JArr xs'
      \<and> unique_positive_ids xs'"
  proof
    assume "files (snd (module_list st clk mname req)) = files st"
    from load_json_files_cong [OF this, of ?f] load inv show ?thesis
      by simp
  next
    assume "\<exists>d ids. existing_ids xs = Inr ids \<and> snd (module_list st clk mname req) =
        snd (save_json (snd (load_json st ?f)) ?f
               (JArr (xs @ [JObj (fill_item clk mname (next_free 1 ids) d)])))"
    then obtain d ids where ids: "existing_ids xs = Inr ids"
      and st': "snd (module_list st clk mname req) =
        snd (save_json (snd (load_json st ?f)) ?f
               (JArr (xs @ [JObj (fill_item clk mname (next_free 1 ids) d)])))"
      by blast
    from load_after_save_cases [of st ?f "JArr (xs @ [JObj (fill_item clk mname (next_free 1 ids) d)])"]
      unique_positive_ids_append [OF inv ids, of clk mname d] load inv unique_positive_ids_Nil
    show ?thesis
      unfolding st' by auto
  qed
next
  note recs = unique_positive_ids_records [OF inv]
  let ?f = "mname @ ''.json''"
  from module_item_outcomes [OF load recs, of item_id req]
  show "\<exists>xs'. fst (load_json (snd (module_item st mname item_id req)) ?f) = JArr xs'
      \<and> unique_positive_ids xs'"
  proof (elim disjE exE conjE)
    assume "files (snd (module_item st mname item_id req)) = files st"
    from load_json_files_cong [OF this, of ?f] load inv show ?thesis
      by simp
  next
    fix idx
    assume st': "snd (module_item st mname item_id req) =
        snd (save_json (snd (load_json st ?f)) ?f (JArr (list_pop xs idx)))"
    from load_after_save_cases [of st ?f "JArr (list_pop xs idx)"]
      unique_positive_ids_pop [OF inv, of idx] load inv unique_positive_ids_Nil
    show ?thesis
      unfolding st' by auto
  next
    fix idx d
    assume idx: "idx < length xs" "has_id (xs ! idx) item_id"
      and st': "snd (module_item st mname item_id req) =
        snd (save_json (snd (load_json st ?f)) ?f
               (JArr (xs[idx := JObj (dict_set d ''id'' (JInt item_id))])))"
    from load_after_save_cases [of st ?f "JArr (xs[idx := JObj (dict_set d ''id'' (JInt item_id))])"]
      unique_positive_ids_update [OF inv idx, of d] load inv unique_positive_ids_Nil
    show ?thesis
      unfolding st' by auto
  qed
qed

theorem mutations_preserve_unique_positive_ids_witness:
  "fst (load_json three_created (''tickets'' @ ''.json'')) = JArr [ticket 1, ticket 2, ticket 3]
   \<and> unique_positive_ids [ticket 1, ticket 2, ticket 3]
   \<and> (\<exists>xs'. fst (load_json (snd (module_list three_created utc_host_clock ''tickets''
                 (post_request ''{}'' []))) (''tickets'' @ ''.json'')) = JArr xs'
          \<and> unique_positive_ids xs')
   \<and> (\<exists>xs'. fst (load_json (snd (module_item three_created ''tickets'' 2 delete_request))
                 (''tickets'' @ ''.json'')) = JArr xs'
          \<and> unique_positive_ids xs')
   \<and> (\<exists>xs'. fst (load_json (snd (module_item three_created ''tickets'' 2
                 (put_request ''{}'' (Inr (JObj []))))) (''tickets'' @ ''.json'')) = JArr xs'
          \<and> unique_positive_ids xs')"
proof -
  note load = three_created_tickets
  have inv: "unique_positive_ids [ticket 1, ticket 2, ticket 3]"
    by (simp add: unique_positive_ids_def record_id_def ticket_def)
  from mutations_preserve_unique_positive_ids [OF load inv, of utc_host_clock
      "post_request ''{}'' []" 2, THEN conjunct1]
    mutations_preserve_unique_positive_ids [OF load inv, of utc_host_clock delete_request 2,
      THEN conjunct2]
    mutations_preserve_unique_positive_ids [OF load inv, of utc_host_clock
      "put_request ''{}'' (Inr (JObj []))" 2, THEN conjunct2]
    load inv
  show ?thesis
    by (intro conjI)
qed

text \<open>
  C5.  In a collection whose records all have an integer id, fetching a record by an id
  the collection has answers 200 with a record of that id, and a replace at that id with
  the fetched record as body answers 200 with the same record and, when its write
  succeeds, leaves the collection the same list: no field, the id and \<^verbatim>\<open>created_at\<close>
  included, is added or changed.
\<close>

theorem replace_of_fetched_record_is_identity:
  assumes load: "fst (load_json st (mname @ ''.json'')) = JArr xs"
    and ints: "list_all (\<lambda>x. record_id x \<noteq> None) xs"
    and present: "Some item_id \<in> record_id ` set xs"
    and fetch: "rmethod fetch = GET"
    and put: "rmethod req = PUT" "rdata req \<noteq> []"
  shows "\<exists>r. fst (module_item st mname item_id fetch) = Inr \<lparr>body = r, status = 200\<rparr>
      \<and> r \<in> set xs \<and> record_id r = Some item_id
      \<and> (get_json req = Inr r \<longrightarrow>
           fst (module_item (snd (module_item st mname item_id fetch)) mname item_id req) =
             Inr \<lparr>body = r, status = 200\<rparr>
         \<and> (disk_ok st \<longrightarrow>
              fst (load_json
                (snd (module_item (snd (module_item st mname item_id fetch)) mname item_id req))
                (mname @ ''.json'')) = JArr xs))"
proof -
  let ?f = "mname @ ''.json''"
  let ?st1 = "snd (load_json st ?f)"
  have recs: "list_all is_dict xs"
    using ints by (auto simp: list_all_iff intro: record_id_is_dict)
  from present obtain x where "x \<in> set xs" "record_id x = Some item_id"
    by force
  then have "\<exists>x\<in>set xs. has_id x item_id"
    using record_id_has_id [of x item_id item_id] by blast
  from find_idx_present [OF recs this] obtain idx where
    idx: "idx < length xs" "has_id (xs ! idx) item_id"
    and found: "find_idx xs item_id 0 = Inr (Some idx)"
    by blast
  from ints idx(1) obtain m where "record_id (xs ! idx) = Some m"
    by (auto simp: list_all_length)
  with idx(2) have rid: "record_id (xs ! idx) = Some item_id"
    by (simp add: record_id_has_id)
  then obtain d where d: "xs ! idx = JObj d" "map_of d ''id'' = Some (JInt item_id)"
    using record_id_SomeD by blast
  have got: "module_item st mname item_id fetch = (Inr \<lparr>body = xs ! idx, status = 200\<rparr>, ?st1)"
    using fetch by (simp add: module_item_present [OF load found] item_found_def jsonify_def)
  have load1: "fst (load_json ?st1 ?f) = JArr xs"
    using load by (simp add: load_json_load_json)
  have upd: "xs[idx := JObj d] = xs"
    using d(1) by (metis list_update_id)
  have rep: "get_json req = Inr (xs ! idx) \<longrightarrow>
      module_item ?st1 mname item_id req =
        (Inr \<lparr>body = xs ! idx, status = 200\<rparr>,
         snd (save_json (snd (load_json ?st1 ?f)) ?f (JArr xs)))"
    using put d
    by (simp add: module_item_present [OF load1 found] item_found_def replace_def jsonify_def
        upd dict_set_same)
  have "get_json req = Inr (xs ! idx) \<longrightarrow> disk_ok st \<longrightarrow>
      fst (load_json (snd (module_item ?st1 mname item_id req)) ?f) = JArr xs"
    using rep by (simp add: load_json_save_json_ok disk_ok_load_json)
  with got rep idx(1) rid show ?thesis
    by (intro exI [of _ "xs ! idx"]) simp
qed

theorem replace_of_fetched_record_is_identity_witness:
  "fst (load_json three_created (''tickets'' @ ''.json'')) = JArr [ticket 1, ticket 2, ticket 3]
   \<and> list_all (\<lambda>x. record_id x \<noteq> None) [ticket 1, ticket 2, ticket 3]
   \<and> Some 2 \<in> record_id ` set [ticket 1, ticket 2, ticket 3]
   \<and> rmethod list_request = GET
   \<and> rmethod put_ticket_2 = PUT \<and> rdata put_ticket_2 \<noteq> []
   \<and> get_json put_ticket_2 = Inr (ticket 2)
   \<and> disk_ok three_created
   \<and> fst (module_item three_created ''tickets'' 2 list_request) =
       Inr \<lparr>body = ticket 2, status = 200\<rparr>
   \<and> fst (module_item (snd (module_item three_created ''tickets'' 2 list_request)) ''tickets'' 2
            put_ticket_2) = Inr \<lparr>body = ticket 2, status = 200\<rparr>
   \<and> fst (load_json
          (snd (module_item (snd (module_item three_created ''tickets'' 2 list_request))
                  ''tickets'' 2 put_ticket_2))
          (''tickets'' @ ''.json'')) = JArr [ticket 1, ticket 2, ticket 3]"
proof -
  let ?xs = "[ticket 1, ticket 2, ticket 3]"
  note load = three_created_tickets
  have ints: "list_all (\<lambda>x. record_id x \<noteq> None) ?xs"
    by (simp add: record_id_def ticket_def)
  have present: "Some 2 \<in> record_id ` set ?xs"
    by (simp add: record_id_def ticket_def)
  have fetch: "rmethod list_request = GET"
    by (simp add: list_request_def)
  have preq: "rmethod put_ticket_2 = PUT" "rdata put_ticket_2 \<noteq> []"
    by (simp_all add: put_ticket_2_def put_request_def q_def)
  have parsed: "get_json put_ticket_2 = Inr (ticket 2)"
    by (simp add: put_ticket_2_def put_request_def)
  from replace_of_fetched_record_is_identity [OF load ints present fetch preq]
  obtain r where got: "fst (module_item three_created ''tickets'' 2 list_request) =
        Inr \<lparr>body = r, status = 200\<rparr>"
    and r: "r \<in> set ?xs" "record_id r = Some 2"
    and again: "get_json put_ticket_2 = Inr r \<longrightarrow>
        fst (module_item (snd (module_item three_created ''tickets'' 2 list_request))
               ''tickets'' 2 put_ticket_2) = Inr \<lparr>body = r, status = 200\<rparr>
      \<and> (disk_ok three_created \<longrightarrow>
           fst (load_json
            (snd (module_item (snd (module_item three_created ''tickets'' 2 list_request))
                    ''tickets'' 2 put_ticket_2)) (''tickets'' @ ''.json'')) = JArr ?xs)"
    by blast
  from r have "r = ticket 2"
    by (auto simp: record_id_def ticket_def)
  with load ints present fetch preq parsed disk_ok_three_created got again show ?thesis
    by simp
qed

text \<open>
  C6, at an input where the code departs from it.  On a host whose local time is one
  hour ahead of UTC, a create without \<^verbatim>\<open>created_at\<close> stores the local wall-clock time
  15:04:05 under the suffix \<^verbatim>\<open>Z\<close>, while the UTC time of that instant is 14:04:05:
  \<^verbatim>\<open>time.strftime\<close> without a time tuple formats \<^verbatim>\<open>time.localtime()\<close>.  That the key is
  set only when the body lacks it, and is kept otherwise, is \<open>create_stamps_created_at\<close>.
\<close>

theorem created_at_is_local_time:
  "fst (module_list st_empty cet_host_clock ''tickets'' (post_request ''{}'' [])) =
     \<lparr>body = JObj [(''id'', JInt 1), (''created_at'', JStr ''2026-11-04T15:04:05.000Z'')],
      status = 201\<rparr>
   \<and> strftime_iso (gmtime cet_host_clock) = ''2026-11-04T14:04:05.000Z''"
  by (simp add: cet_host_clock_def eval_defs)

text \<open>
  C7.  On a collection that is a list of records, a delete answers 404 if and only if no
  record has the id; then the files are as before and a list request answers as before.
  When a record has the id, the answer is 200, the first record of that id is dropped
  from the list, the others keep their order, and the whole remaining list goes to
  \<^verbatim>\<open>save_json\<close>, after which the file holds it when the write succeeds.
\<close>

theorem delete_removes_exactly_the_record:
  assumes load: "fst (load_json st (mname @ ''.json'')) = JArr xs"
    and recs: "list_all is_dict xs"
    and req: "rmethod req = DELETE"
    and lst: "rmethod lst = GET"
  shows "(fst (module_item st mname item_id req) = Inr (error_response ''Nicht gefunden'' 404))
           = (\<not> (\<exists>x\<in>set xs. has_id x item_id))
    \<and> (\<not> (\<exists>x\<in>set xs. has_id x item_id) \<longrightarrow>
          files (snd (module_item st mname item_id req)) = files st
        \<and> fst (module_list (snd (module_item st mname item_id req)) clk mname lst) =
            fst (module_list st clk mname lst))
    \<and> ((\<exists>x\<in>set xs. has_id x item_id) \<longrightarrow>
         (\<exists>idx. idx < length xs \<and> has_id (xs ! idx) item_id
            \<and> (\<forall>j<idx. \<not> has_id (xs ! j) item_id)
            \<and> module_item st mname item_id req =
                (Inr \<lparr>body = JObj [(''success'', JBool True)], status = 200\<rparr>,
                 snd (save_json (snd (load_json st (mname @ ''.json''))) (mname @ ''.json'')
                        (JArr (take idx xs @ drop (Suc idx) xs))))
            \<and> (disk_ok st \<longrightarrow>
                 fst (load_json (snd (module_item st mname item_id req)) (mname @ ''.json'')) =
                   JArr (take idx xs @ drop (Suc idx) xs))))"
proof (cases "\<exists>x\<in>set xs. has_id x item_id")
  case False
  then have absent: "\<forall>x\<in>set xs. \<not> has_id x item_id"
    by blast
  note res = module_item_absent [OF load recs absent, of req]
  have "fst (module_list (snd (module_item st mname item_id req)) clk mname lst) =
      fst (module_list st clk mname lst)"
    using lst by (simp add: res module_list_get load_json_load_json)
  with False res show ?thesis
    by (simp add: files_load_json)
next
  case True
  from find_idx_present [OF recs True] obtain idx where
    idx: "idx < length xs" "has_id (xs ! idx) item_id" "\<forall>j<idx. \<not> has_id (xs ! j) item_id"
    and found: "find_idx xs item_id 0 = Inr (Some idx)"
    by blast
  let ?f = "mname @ ''.json''"
  have res: "module_item st mname item_id req =
      (Inr \<lparr>body = JObj [(''success'', JBool True)], status = 200\<rparr>,
       snd (save_json (snd (load_json st ?f)) ?f (JArr (take idx xs @ drop (Suc idx) xs))))"
    using req by (simp add: module_item_present [OF load found] item_found_def jsonify_def list_pop_def)
  have not404: "fst (module_item st mname item_id req) \<noteq> Inr (error_response ''Nicht gefunden'' 404)"
    by (simp add: res error_response_def jsonify_def)
  have stored: "disk_ok st \<longrightarrow>
      fst (load_json (snd (module_item st mname item_id req)) ?f) =
        JArr (take idx xs @ drop (Suc idx) xs)"
    by (simp add: res load_json_save_json_ok disk_ok_load_json)
  from True not404 idx res stored show ?thesis
    by blast
qed

theorem delete_removes_exactly_the_record_witness:
  "fst (load_json three_created (''tickets'' @ ''.json'')) = JArr [ticket 1, ticket 2, ticket 3]
   \<and> list_all is_dict [ticket 1, ticket 2, ticket 3]
   \<and> rmethod delete_request = DELETE \<and> rmethod list_request = GET
   \<and> \<not> (\<exists>x\<in>set [ticket 1, ticket 2, ticket 3]. has_id x 7)
   \<and> fst (module_item three_created ''tickets'' 7 delete_request) =
       Inr (error_response ''Nicht gefunden'' 404)
   \<and> fst (module_list (snd (module_item three_created ''tickets'' 7 delete_request))
            utc_host_clock ''tickets'' list_request) =
       fst (module_list three_created utc_host_clock ''tickets'' list_request)
   \<and> (\<exists>x\<in>set [ticket 1, ticket 2, ticket 3]. has_id x 2)
   \<and> fst (module_item three_created ''tickets'' 2 delete_request) =
       Inr \<lparr>body = JObj [(''success'', JBool True)], status = 200\<rparr>
   \<and> fst (load_json (snd (module_item three_created ''tickets'' 2 delete_request))
            (''tickets'' @ ''.json'')) = JArr [ticket 1, ticket 3]"
proof -
  let ?xs = "[ticket 1, ticket 2, ticket 3]"
  note load = three_created_tickets
  have recs: "list_all is_dict ?xs"
    by (simp add: is_dict_def ticket_def)
  have req: "rmethod delete_request = DELETE" "rmethod list_request = GET"
    by (simp_all add: delete_request_def list_request_def)
  have absent: "\<not> (\<exists>x\<in>set ?xs. has_id x 7)"
    by (simp add: has_id_def ticket_def)
  have present: "\<exists>x\<in>set ?xs. has_id x 2"
    by (simp add: has_id_def ticket_def)
  note del7 = delete_removes_exactly_the_record [OF load recs req, of 7 utc_host_clock]
  note del2 = delete_removes_exactly_the_record [OF load recs req, of 2 utc_host_clock]
  from del7 [THEN conjunct1] absent
  have nf: "fst (module_item three_created ''tickets'' 7 delete_request) =
      Inr (error_response ''Nicht gefunden'' 404)"
    by (rule iffD2)
  from del7 [THEN conjunct2, THEN conjunct1, rule_format, OF absent]
  have same: "fst (module_list (snd (module_item three_created ''tickets'' 7 delete_request))
            utc_host_clock ''tickets'' list_request) =
       fst (module_list three_created utc_host_clock ''tickets'' list_request)"
    by (rule conjunct2)
  from del2 [THEN conjunct2, THEN conjunct2, rule_format, OF present]
  obtain idx where
    idx: "idx < length ?xs" "has_id (?xs ! idx) 2"
    and res0: "module_item three_created ''tickets'' 2 delete_request =
                (Inr \<lparr>body = JObj [(''success'', JBool True)], status = 200\<rparr>,
                 snd (save_json (snd (load_json three_created (''tickets'' @ ''.json'')))
                        (''tickets'' @ ''.json'') (JArr (take idx ?xs @ drop (Suc idx) ?xs))))"
    and stored0: "disk_ok three_created \<longrightarrow>
       fst (load_json (snd (module_item three_created ''tickets'' 2 delete_request))
            (''tickets'' @ ''.json'')) = JArr (take idx ?xs @ drop (Suc idx) ?xs)"
    by blast
  from res0 have res: "fst (module_item three_created ''tickets'' 2 delete_request) =
       Inr \<lparr>body = JObj [(''success'', JBool True)], status = 200\<rparr>"
    by simp
  from stored0 disk_ok_three_created
  have stored: "fst (load_json (snd (module_item three_created ''tickets'' 2 delete_request))
            (''tickets'' @ ''.json'')) = JArr (take idx ?xs @ drop (Suc idx) ?xs)"
    by (rule mp)
  from idx(1) have "idx = 0 \<or> idx = 1 \<or> idx = 2"
    by auto
  with idx(2) have "idx = 1"
    by (auto simp: has_id_def ticket_def)
  with stored have "fst (load_json (snd (module_item three_created ''tickets'' 2 delete_request))
            (''tickets'' @ ''.json'')) = JArr [ticket 1, ticket 3]"
    by simp
  with load recs req absent nf same present res show ?thesis
    by blast
qed

text \<open>
  C8.  A create answers 201 with a record in which, for the collection \<^verbatim>\<open>tools\<close>, the
  keys \<^verbatim>\<open>admin\<close>, \<^verbatim>\<open>autostart\<close> and \<^verbatim>\<open>favorite\<close> hold the submitted value or else false and
  \<^verbatim>\<open>tags\<close> the submitted value or else the empty list; for the collection \<^verbatim>\<open>faq\<close> the
  same holds of \<^verbatim>\<open>tags\<close>, \<^verbatim>\<open>favorite\<close> and \<^verbatim>\<open>attachments\<close> (the empty list); any other
  collection gets no key beyond \<^verbatim>\<open>id\<close> and \<^verbatim>\<open>created_at\<close>.  The witness is the scenario
  of the claim: the POST of a question and an answer into the empty collection \<^verbatim>\<open>faq\<close>
  answers 201 with the seven fields of the claim, in the order Python inserts them.
\<close>

theorem create_injects_collection_defaults:
  assumes load: "fst (load_json st (mname @ ''.json'')) = JArr xs"
    and recs: "list_all is_dict xs"
    and req: "rmethod req = POST" "rdata req \<noteq> []" "get_json req = Inr (JObj d)"
  shows "\<exists>r st'. module_list st clk mname req = (\<lparr>body = JObj r, status = 201\<rparr>, st')
    \<and> (mname = ''tools'' \<longrightarrow>
          map_of r ''admin'' =
            Some (case map_of d ''admin'' of None \<Rightarrow> JBool False | Some v \<Rightarrow> v)
        \<and> map_of r ''autostart'' =
            Some (case map_of d ''autostart'' of None \<Rightarrow> JBool False | Some v \<Rightarrow> v)
        \<and> map_of r ''favorite'' =
            Some (case map_of d ''favorite'' of None \<Rightarrow> JBool False | Some v \<Rightarrow> v)
        \<and> map_of r ''tags'' =
            Some (case map_of d ''tags'' of None \<Rightarrow> JArr [] | Some v \<Rightarrow> v))
    \<and> (mname = ''faq'' \<longrightarrow>
          map_of r ''tags'' =
            Some (case map_of d ''tags'' of None \<Rightarrow> JArr [] | Some v \<Rightarrow> v)
        \<and> map_of r ''favorite'' =
            Some (case map_of d ''favorite'' of None \<Rightarrow> JBool False | Some v \<Rightarrow> v)
        \<and> map_of r ''attachments'' =
            Some (case map_of d ''attachments'' of None \<Rightarrow> JArr [] | Some v \<Rightarrow> v))
    \<and> (mname \<noteq> ''tools'' \<and> mname \<noteq> ''faq'' \<longrightarrow>
          (\<forall>k. k \<noteq> ''id'' \<and> k \<noteq> ''created_at'' \<longrightarrow> map_of r k = map_of d k))"
proof -
  from recs obtain ids where ids: "existing_ids xs = Inr ids"
    using existing_ids_records by blast
  let ?r = "fill_item clk mname (next_free 1 ids) d"
  from module_list_post_record [OF load ids req, of clk]
  have res: "\<exists>st'. module_list st clk mname req = (\<lparr>body = JObj ?r, status = 201\<rparr>, st')"
    by (simp add: jsonify_def)
  have tools: "mname = ''tools'' \<longrightarrow>
          map_of ?r ''admin'' =
            Some (case map_of d ''admin'' of None \<Rightarrow> JBool False | Some v \<Rightarrow> v)
        \<and> map_of ?r ''autostart'' =
            Some (case map_of d ''autostart'' of None \<Rightarrow> JBool False | Some v \<Rightarrow> v)
        \<and> map_of ?r ''favorite'' =
            Some (case map_of d ''favorite'' of None \<Rightarrow> JBool False | Some v \<Rightarrow> v)
        \<and> map_of ?r ''tags'' =
            Some (case map_of d ''tags'' of None \<Rightarrow> JArr [] | Some v \<Rightarrow> v)"
    by (simp add: fill_item_tools)
  have faq: "mname = ''faq'' \<longrightarrow>
          map_of ?r ''tags'' =
            Some (case map_of d ''tags'' of None \<Rightarrow> JArr [] | Some v \<Rightarrow> v)
        \<and> map_of ?r ''favorite'' =
            Some (case map_of d ''favorite'' of None \<Rightarrow> JBool False | Some v \<Rightarrow> v)
        \<and> map_of ?r ''attachments'' =
            Some (case map_of d ''attachments'' of None \<Rightarrow> JArr [] | Some v \<Rightarrow> v)"
    by (simp add: fill_item_faq)
  have plain: "mname \<noteq> ''tools'' \<and> mname \<noteq> ''faq'' \<longrightarrow>
          (\<forall>k. k \<noteq> ''id'' \<and> k \<noteq> ''created_at'' \<longrightarrow> map_of ?r k = map_of d k)"
    by (simp add: fill_item_plain)
  from res tools faq plain show ?thesis
    by blast
qed

theorem create_injects_collection_defaults_witness:
  "fst (load_json st_empty (''faq'' @ ''.json'')) = JArr []
   \<and> list_all is_dict []
   \<and> rmethod faq_request = POST \<and> rdata faq_request \<noteq> []
   \<and> get_json faq_request = Inr (JObj [(''question'', JStr ''Q''), (''answer'', JStr ''A'')])
   \<and> (\<exists>r st'. module_list st_empty utc_host_clock ''faq'' faq_request =
            (\<lparr>body = JObj r, status = 201\<rparr>, st')
        \<and> map_of r ''tags'' = Some (JArr [])
        \<and> map_of r ''favorite'' = Some (JBool False)
        \<and> map_of r ''attachments'' = Some (JArr [])
        \<and> r = [(''question'', JStr ''Q''), (''answer'', JStr ''A''), (''id'', JInt 1),
               (''created_at'', JStr ''2026-11-04T14:04:05.000Z''), (''tags'', JArr []),
               (''favorite'', JBool False), (''attachments'', JArr [])]
        \<and> map_of r = map_of
              [(''id'', JInt 1), (''question'', JStr ''Q''), (''answer'', JStr ''A''),
               (''created_at'', JStr ''2026-11-04T14:04:05.000Z''), (''tags'', JArr []),
               (''favorite'', JBool False), (''attachments'', JArr [])])"
proof -
  have load: "fst (load_json st_empty (''faq'' @ ''.json'')) = JArr []"
    by (simp add: st_empty_def load_json_def)
  have recs: "list_all is_dict []"
    by simp
  have req: "rmethod faq_request = POST" "rdata faq_request \<noteq> []"
    "get_json faq_request = Inr (JObj [(''question'', JStr ''Q''), (''answer'', JStr ''A'')])"
    by (simp_all add: faq_request_def post_request_def q_def)
  from create_injects_collection_defaults [OF load recs req, of utc_host_clock]
  obtain r st' where res: "module_list st_empty utc_host_clock ''faq'' faq_request =
        (\<lparr>body = JObj r, status = 201\<rparr>, st')"
    and faq: "''faq'' = ''faq'' \<longrightarrow>
          map_of r ''tags'' =
            Some (case map_of [(''question'', JStr ''Q''), (''answer'', JStr ''A'')] ''tags'' of
                    None \<Rightarrow> JArr [] | Some v \<Rightarrow> v)
        \<and> map_of r ''favorite'' =
            Some (case map_of [(''question'', JStr ''Q''), (''answer'', JStr ''A'')] ''favorite'' of
                    None \<Rightarrow> JBool False | Some v \<Rightarrow> v)
        \<and> map_of r ''attachments'' =
            Some (case map_of [(''question'', JStr ''Q''), (''answer'', JStr ''A'')] ''attachments'' of
                    None \<Rightarrow> JArr [] | Some v \<Rightarrow> v)"
    by blast
  from faq have dflt: "map_of r ''tags'' = Some (JArr [])"
    "map_of r ''favorite'' = Some (JBool False)" "map_of r ''attachments'' = Some (JArr [])"
    by simp_all
  have "fst (module_list st_empty utc_host_clock ''faq'' faq_request) =
      \<lparr>body = JObj [(''question'', JStr ''Q''), (''answer'', JStr ''A''), (''id'', JInt 1),
               (''created_at'', JStr ''2026-11-04T14:04:05.000Z''), (''tags'', JArr []),
               (''favorite'', JBool False), (''attachments'', JArr [])], status = 201\<rparr>"
    by (simp add: faq_request_def eval_defs q_def)
  with res have r: "r = [(''question'', JStr ''Q''), (''answer'', JStr ''A''), (''id'', JInt 1),
               (''created_at'', JStr ''2026-11-04T14:04:05.000Z''), (''tags'', JArr []),
               (''favorite'', JBool False), (''attachments'', JArr [])]"
    by simp
  have same: "map_of r = map_of
              [(''id'', JInt 1), (''question'', JStr ''Q''), (''answer'', JStr ''A''),
               (''created_at'', JStr ''2026-11-04T14:04:05.000Z''), (''tags'', JArr []),
               (''favorite'', JBool False), (''attachments'', JArr [])]"
    unfolding r by (rule ext) simp
  from res dflt r same have "\<exists>r st'. module_list st_empty utc_host_clock ''faq'' faq_request =
            (\<lparr>body = JObj r, status = 201\<rparr>, st')
        \<and> map_of r ''tags'' = Some (JArr [])
        \<and> map_of r ''favorite'' = Some (JBool False)
        \<and> map_of r ''attachments'' = Some (JArr [])
        \<and> r = [(''question'', JStr ''Q''), (''answer'', JStr ''A''), (''id'', JInt 1),
               (''created_at'', JStr ''2026-11-04T14:04:05.000Z''), (''tags'', JArr []),
               (''favorite'', JBool False), (''attachments'', JArr [])]
        \<and> map_of r = map_of
              [(''id'', JInt 1), (''question'', JStr ''Q''), (''answer'', JStr ''A''),
               (''created_at'', JStr ''2026-11-04T14:04:05.000Z''), (''tags'', JArr []),
               (''favorite'', JBool False), (''attachments'', JArr [])]"
    by (intro exI conjI)
  with load recs req show ?thesis
    by (intro conjI)
qed

text \<open>
  C9.  When the write fails, at \<^verbatim>\<open>open\<close> or in the dump, a create that reaches it still
  answers 201, and a delete and a replace of an existing record
  still answer 200 with the success flag and the new record; the only trace is the entry
  \<open>SaveError\<close> that \<^verbatim>\<open>save_json\<close> adds to the log.  The witness is a write whose dump
  raises: the answers are 201 and 200 although the file of the collection is left
  unreadable.
\<close>

theorem save_failure_still_reports_success:
  assumes fail: "\<not> disk_ok st"
    and load: "fst (load_json st (mname @ ''.json'')) = JArr xs"
    and recs: "list_all is_dict xs"
  shows "(rmethod req = POST \<and> rdata req \<noteq> [] \<and> get_json req = Inr (JObj d) \<longrightarrow>
            status (fst (module_list st clk mname req)) = 201
          \<and> log (snd (module_list st clk mname req)) =
              log (snd (load_json st (mname @ ''.json''))) @ [SaveError (mname @ ''.json'')])
    \<and> ((\<exists>x\<in>set xs. has_id x item_id) \<and> rmethod req = DELETE \<longrightarrow>
            fst (module_item st mname item_id req) =
              Inr \<lparr>body = JObj [(''success'', JBool True)], status = 200\<rparr>
          \<and> log (snd (module_item st mname item_id req)) =
              log (snd (load_json st (mname @ ''.json''))) @ [SaveError (mname @ ''.json'')])
    \<and> ((\<exists>x\<in>set xs. has_id x item_id) \<and> rmethod req = PUT \<and> rdata req \<noteq> []
          \<and> get_json req = Inr (JObj d) \<longrightarrow>
            fst (module_item st mname item_id req) =
              Inr \<lparr>body = JObj (dict_set d ''id'' (JInt item_id)), status = 200\<rparr>
          \<and> log (snd (module_item st mname item_id req)) =
              log (snd (load_json st (mname @ ''.json''))) @ [SaveError (mname @ ''.json'')])"
proof (intro conjI impI; (elim conjE)?)
  let ?f = "mname @ ''.json''"
  let ?st1 = "snd (load_json st ?f)"
  have fail1: "\<not> disk_ok ?st1"
    using fail by (simp add: disk_ok_load_json)
  have saved: "\<And>v. log (snd (save_json ?st1 ?f v)) = log ?st1 @ [SaveError ?f]"
    using fail1 by (rule log_save_json_failed)
  from recs obtain ids where ids: "existing_ids xs = Inr ids"
    using existing_ids_records by blast
  {
    assume req: "rmethod req = POST" "rdata req \<noteq> []" "get_json req = Inr (JObj d)"
    note res = module_list_post_record [OF load ids req, of clk]
    show "status (fst (module_list st clk mname req)) = 201"
      by (simp add: res jsonify_def)
    show "log (snd (module_list st clk mname req)) = log ?st1 @ [SaveError ?f]"
      by (simp add: res saved)
  }
  {
    assume present: "\<exists>x\<in>set xs. has_id x item_id" and req: "rmethod req = DELETE"
    from find_idx_present [OF recs present] obtain idx where
      found: "find_idx xs item_id 0 = Inr (Some idx)"
      by blast
    have res: "module_item st mname item_id req =
        (Inr \<lparr>body = JObj [(''success'', JBool True)], status = 200\<rparr>,
         snd (save_json ?st1 ?f (JArr (list_pop xs idx))))"
      using req by (simp add: module_item_present [OF load found] item_found_def jsonify_def)
    show "fst (module_item st mname item_id req) =
        Inr \<lparr>body = JObj [(''success'', JBool True)], status = 200\<rparr>"
      by (simp add: res)
    show "log (snd (module_item st mname item_id req)) = log ?st1 @ [SaveError ?f]"
      by (simp add: res saved)
  }
  {
    assume present: "\<exists>x\<in>set xs. has_id x item_id"
      and req: "rmethod req = PUT" "rdata req \<noteq> []" "get_json req = Inr (JObj d)"
    from find_idx_present [OF recs present] obtain idx where
      found: "find_idx xs item_id 0 = Inr (Some idx)"
      by blast
    have res: "module_item st mname item_id req =
        (Inr \<lparr>body = JObj (dict_set d ''id'' (JInt item_id)), status = 200\<rparr>,
         snd (save_json ?st1 ?f (JArr (xs[idx := JObj (dict_set d ''id'' (JInt item_id))]))))"
      using req
      by (simp add: module_item_present [OF load found] item_found_def replace_def jsonify_def)
    show "fst (module_item st mname item_id req) =
        Inr \<lparr>body = JObj (dict_set d ''id'' (JInt item_id)), status = 200\<rparr>"
      by (simp add: res)
    show "log (snd (module_item st mname item_id req)) = log ?st1 @ [SaveError ?f]"
      by (simp add: res saved)
  }
qed

theorem save_failure_still_reports_success_witness:
  "\<not> disk_ok failing_disk_state
   \<and> fst (load_json failing_disk_state (''tools'' @ ''.json'')) =
       JArr [JObj [(''id'', JInt 5), (''name'', JStr ''old''), (''admin'', JBool True)]]
   \<and> list_all is_dict [JObj [(''id'', JInt 5), (''name'', JStr ''old''), (''admin'', JBool True)]]
   \<and> (\<exists>x\<in>set [JObj [(''id'', JInt 5), (''name'', JStr ''old''), (''admin'', JBool True)]].
         has_id x 5)
   \<and> status (fst (module_list failing_disk_state utc_host_clock ''tools''
         (post_request ''{}'' []))) = 201
   \<and> log (snd (module_list failing_disk_state utc_host_clock ''tools''
         (post_request ''{}'' []))) = [SaveError ''tools.json'']
   \<and> files (snd (module_list failing_disk_state utc_host_clock ''tools''
         (post_request ''{}'' []))) ''tools.json'' = Some Unreadable
   \<and> fst (module_item failing_disk_state ''tools'' 5 delete_request) =
       Inr \<lparr>body = JObj [(''success'', JBool True)], status = 200\<rparr>
   \<and> log (snd (module_item failing_disk_state ''tools'' 5 delete_request)) =
       [SaveError ''tools.json'']
   \<and> fst (module_item failing_disk_state ''tools'' 5 (put_request ''{}'' (Inr (JObj [])))) =
       Inr \<lparr>body = JObj [(''id'', JInt 5)], status = 200\<rparr>
   \<and> log (snd (module_item failing_disk_state ''tools'' 5
         (put_request ''{}'' (Inr (JObj []))))) = [SaveError ''tools.json'']"
proof -
  let ?xs = "[JObj [(''id'', JInt 5), (''name'', JStr ''old''), (''admin'', JBool True)]]"
  have fail: "\<not> disk_ok failing_disk_state"
    by (simp add: failing_disk_state_def tools_state_def disk_ok_def)
  have load: "fst (load_json failing_disk_state (''tools'' @ ''.json'')) = JArr ?xs"
    by (simp add: failing_disk_state_def tools_state_def load_json_def)
  have recs: "list_all is_dict ?xs"
    by (simp add: is_dict_def)
  have present: "\<exists>x\<in>set ?xs. has_id x 5"
    by (simp add: has_id_def)
  have logs: "log (snd (load_json failing_disk_state ''tools.json'')) = []"
    by (simp add: failing_disk_state_def tools_state_def load_json_def)
  have creq: "rmethod (post_request ''{}'' []) = POST \<and> rdata (post_request ''{}'' []) \<noteq> []
      \<and> get_json (post_request ''{}'' []) = Inr (JObj [])"
    by (simp add: post_request_def)
  have dreq: "(\<exists>x\<in>set ?xs. has_id x 5) \<and> rmethod delete_request = DELETE"
    using present by (simp add: delete_request_def)
  have preq: "(\<exists>x\<in>set ?xs. has_id x 5) \<and> rmethod (put_request ''{}'' (Inr (JObj []))) = PUT
      \<and> rdata (put_request ''{}'' (Inr (JObj []))) \<noteq> []
      \<and> get_json (put_request ''{}'' (Inr (JObj []))) = Inr (JObj [])"
    using present by (simp add: put_request_def)
  note sf = save_failure_still_reports_success [OF fail load recs]
  from sf [of "post_request ''{}'' []" "[]" utc_host_clock 5, THEN conjunct1, rule_format, OF creq]
  have c: "status (fst (module_list failing_disk_state utc_host_clock ''tools''
         (post_request ''{}'' []))) = 201
     \<and> log (snd (module_list failing_disk_state utc_host_clock ''tools''
         (post_request ''{}'' []))) = [SaveError ''tools.json'']"
    by (simp add: logs)
  have lost: "files (snd (module_list failing_disk_state utc_host_clock ''tools''
         (post_request ''{}'' []))) ''tools.json'' = Some Unreadable"
    by (simp add: failing_disk_state_def tools_state_def eval_defs)
  from sf [of delete_request "[]" utc_host_clock 5, THEN conjunct2, THEN conjunct1,
      rule_format, OF dreq]
  have d: "fst (module_item failing_disk_state ''tools'' 5 delete_request) =
       Inr \<lparr>body = JObj [(''success'', JBool True)], status = 200\<rparr>
     \<and> log (snd (module_item failing_disk_state ''tools'' 5 delete_request)) =
       [SaveError ''tools.json'']"
    by (simp add: logs)
  from sf [of "put_request ''{}'' (Inr (JObj []))" "[]" utc_host_clock 5, THEN conjunct2,
      THEN conjunct2, rule_format, OF preq]
  have p: "fst (module_item failing_disk_state ''tools'' 5 (put_request ''{}'' (Inr (JObj [])))) =
       Inr \<lparr>body = JObj [(''id'', JInt 5)], status = 200\<rparr>
     \<and> log (snd (module_item failing_disk_state ''tools'' 5
         (put_request ''{}'' (Inr (JObj []))))) = [SaveError ''tools.json'']"
    by (simp add: logs)
  from fail load recs present c lost d p show ?thesis
    by (intro conjI) blast+
qed

text \<open>
  C10.  On a collection that is a list of records none of which has the path id, the item
  handler answers 404 to every request, whatever its method, its raw body and the
  outcome of parsing it, and leaves the files and the collection as they were.
\<close>

theorem not_found_precedes_body_validation:
  assumes load: "fst (load_json st (mname @ ''.json'')) = JArr xs"
    and recs: "list_all is_dict xs"
    and absent: "\<not> (\<exists>x\<in>set xs. has_id x item_id)"
  shows "fst (module_item st mname item_id req) = Inr (error_response ''Nicht gefunden'' 404)
    \<and> status (error_response ''Nicht gefunden'' 404) = 404
    \<and> files (snd (module_item st mname item_id req)) = files st
    \<and> fst (load_json (snd (module_item st mname item_id req)) (mname @ ''.json'')) = JArr xs"
proof -
  from absent have "\<forall>x\<in>set xs. \<not> has_id x item_id"
    by blast
  from module_item_absent [OF load recs this, of req] load show ?thesis
    by (simp add: files_load_json load_json_load_json error_response_def jsonify_def)
qed

theorem not_found_precedes_body_validation_witness:
  "fst (load_json tools_state (''tools'' @ ''.json'')) =
     JArr [JObj [(''id'', JInt 5), (''name'', JStr ''old''), (''admin'', JBool True)]]
   \<and> list_all is_dict [JObj [(''id'', JInt 5), (''name'', JStr ''old''), (''admin'', JBool True)]]
   \<and> \<not> (\<exists>x\<in>set [JObj [(''id'', JInt 5), (''name'', JStr ''old''), (''admin'', JBool True)]].
          has_id x 6)
   \<and> fst (module_item tools_state ''tools'' 6 (put_request [] (Inr JNull))) =
       Inr (error_response ''Nicht gefunden'' 404)
   \<and> fst (module_item tools_state ''tools'' 6
            (put_request ''{bad'' (Inl (BadRequest ''400 Bad Request'')))) =
       Inr (error_response ''Nicht gefunden'' 404)
   \<and> files (snd (module_item tools_state ''tools'' 6
            (put_request ''{bad'' (Inl (BadRequest ''400 Bad Request''))))) = files tools_state"
proof -
  let ?xs = "[JObj [(''id'', JInt 5), (''name'', JStr ''old''), (''admin'', JBool True)]]"
  have load: "fst (load_json tools_state (''tools'' @ ''.json'')) = JArr ?xs"
    by (simp add: tools_state_def load_json_def)
  have recs: "list_all is_dict ?xs"
    by (simp add: is_dict_def)
  have absent: "\<not> (\<exists>x\<in>set ?xs. has_id x 6)"
    by (simp add: has_id_def)
  from not_found_precedes_body_validation [OF load recs absent, of "put_request [] (Inr JNull)"]
    not_found_precedes_body_validation [OF load recs absent,
      of "put_request ''{bad'' (Inl (BadRequest ''400 Bad Request''))"]
    load recs absent
  show ?thesis
    by blast
qed

end
